theory Spec2Isabelle
  imports Complex_Main "HOL-Library.AList"
begin

chapter \<open>Session state machines of the chat backends\<close>

text \<open>
  The repository holds three Chainlit backends.  \<^verbatim>\<open>azure_deepresearch_agent/app.py\<close> starts a
  long-running vendor run and polls it; \<^verbatim>\<open>azure_realtimeapi_agent/app.py\<close> and
  \<^verbatim>\<open>azure_realtimeapi_async_fc/app.py\<close> drive a duplex realtime connection, the second one with
  tool calls.  Each source function becomes a HOL function of the same name.  What the Python
  reads from a collaborator (the vendor client, the clock, \<^verbatim>\<open>uuid4\<close>, \<^verbatim>\<open>json.loads\<close>) is an
  argument of the function; what it does to a collaborator (a UI call, a transport call, a
  write to the session store) is appended to a trace that the function returns.
\<close>

section \<open>Python strings\<close>

text \<open>
  \<^verbatim>\<open>str.isspace\<close> restricted to code points below 256, \<^verbatim>\<open>str.strip()\<close> and \<^verbatim>\<open>sep.join(xs)\<close>.
  A \<^typ>\<open>char\<close> stands for one code point below 256.
\<close>

definition py_isspace :: "char \<Rightarrow> bool" where
  "py_isspace c = (of_char c \<in> {9, 10, 11, 12, 13, 28, 29, 30, 31, 32, 133, 160 :: nat})"

definition py_strip :: "string \<Rightarrow> string" where
  "py_strip s = rev (dropWhile py_isspace (rev (dropWhile py_isspace s)))"

fun py_join :: "string \<Rightarrow> string list \<Rightarrow> string" where
  "py_join sep [] = []"
| "py_join sep [x] = x"
| "py_join sep (x # y # ys) = x @ sep @ py_join sep (y # ys)"

section \<open>Deep research flow: \<^verbatim>\<open>azure_deepresearch_agent/app.py\<close>\<close>

subsection \<open>Vendor data and the session store\<close>

text \<open>
  \<^verbatim>\<open>ann.url_citation.url\<close> and \<^verbatim>\<open>ann.url_citation.title\<close> of one annotation; a message as
  \<^verbatim>\<open>get_last_message_by_role\<close> returns it, with \<^verbatim>\<open>t.text.value\<close> of every text part; a run with
  its \<^verbatim>\<open>id\<close>, \<^verbatim>\<open>status\<close> and \<^verbatim>\<open>str(last_error)\<close> (\<open>None\<close> when \<^verbatim>\<open>last_error\<close> is falsy).
\<close>

record annotation =
  url :: string
  title :: "string option"

record thread_message =
  text_messages :: "string list"
  url_citation_annotations :: "annotation list"

record run =
  run_id :: string
  status :: string
  last_error :: "string option"

text \<open>
  The keys of \<^verbatim>\<open>cl.user_session\<close> that this backend uses.  A key never set reads as \<open>None\<close>.
\<close>

record dr_session =
  thread_id :: "string option"
  active_run_id :: "string option"
  emitted_cot_set :: "string set option"
  emitted_url_lines :: "string set option"

text \<open>
  Calls on the vendor client, in the order they are made.
\<close>

datatype vendor_call =
    ThreadsCreate
  | RunsCreate string string
  | RunsGet string string
  | MessagesCreate string string string
  | MessagesGetLast string

text \<open>
  What the status panel and the results panel receive.  The notices whose Python text holds
  characters outside ASCII are constructors: \<open>ErrorGettingStatus e\<close> is the token
  \<^verbatim>\<open>"\n! Error getting run status: {e}"\<close>, \<open>UnexpectedError e\<close> is \<^verbatim>\<open>"\n! Unexpected error: {e}"\<close>,
  \<open>TimeoutExceeded\<close> is \<^verbatim>\<open>"\n(warning sign) Timeout exceeded."\<close>, \<open>RunFailed\<close> is
  \<^verbatim>\<open>"\n(cross mark) Run failed."\<close>, \<open>FailedToStart e\<close> is \<^verbatim>\<open>"\n(cross mark) Failed to start research: {e}"\<close>
  and \<open>FailedToInit e\<close> is \<^verbatim>\<open>"\n(cross mark) Failed to initialize clients: {e}"\<close>.
  \<open>CotSummary b\<close> is \<^verbatim>\<open>"\n\n-----\n" + b\<close>, \<open>UrlCitationLine c\<close> is \<^verbatim>\<open>"\nURL Citation: " + c\<close>,
  \<open>ErrorDetail e\<close> is \<^verbatim>\<open>"\nError: {e}"\<close> and \<open>Plain s\<close> is the token \<open>s\<close> itself.
\<close>

datatype token =
    Plain string
  | CotSummary string
  | UrlCitationLine string
  | ErrorGettingStatus string
  | UnexpectedError string
  | TimeoutExceeded
  | RunFailed
  | ErrorDetail string
  | FailedToStart string
  | FailedToInit string

text \<open>
  The messages that \<^verbatim>\<open>on_message\<close> sends on their own: \<open>ProvideQuestion\<close> is
  \<^verbatim>\<open>"Please provide a research question."\<close>, \<open>MissingEnvironment\<close> the notice about
  \<^verbatim>\<open>PROJECT_ENDPOINT\<close> or \<^verbatim>\<open>AGENT_ID\<close>, \<open>StatusPanel\<close> and \<open>ResultsPanel\<close> the two panels, and
  \<open>AnotherInProgress\<close> is \<^verbatim>\<open>"(warning sign) Another research is in progress. Please wait for completion."\<close>.
\<close>

datatype dr_message =
    ProvideQuestion
  | MissingEnvironment
  | StatusPanel
  | ResultsPanel
  | AnotherInProgress

datatype dr_event =
    Vendor vendor_call
  | StatusToken token
  | ResultToken token
  | Sleep real
  | SendMessage dr_message

record dr_world =
  session :: dr_session
  events :: "dr_event list"

definition emit :: "dr_event \<Rightarrow> dr_world \<Rightarrow> dr_world" where
  "emit e w = w\<lparr>events := events w @ [e]\<rparr>"

subsection \<open>Run management\<close>

datatype dr_error =
    RuntimeError string
  | VendorError string

definition is_run_active :: "dr_world \<Rightarrow> bool" where
  "is_run_active w = (active_run_id (session w) \<noteq> None)"

definition set_active_run :: "string option \<Rightarrow> dr_world \<Rightarrow> dr_world" where
  "set_active_run rid w = w\<lparr>session := (session w)\<lparr>active_run_id := rid\<rparr>\<rparr>"

text \<open>
  \<^verbatim>\<open>_start_run\<close>.  \<open>created\<close> is what \<^verbatim>\<open>agents_client.runs.create\<close> does when it is called: it
  raises (\<open>Inl\<close>, with the text of the exception) or returns the new run.
\<close>

definition start_run ::
  "string + run \<Rightarrow> string \<Rightarrow> string \<Rightarrow> dr_world \<Rightarrow> (dr_error + run) \<times> dr_world" where
  "start_run created tid aid w =
     (if is_run_active w
      then (Inl (RuntimeError ''A run is already active in this session.''), w)
      else
        let w1 = emit (Vendor (RunsCreate tid aid)) w in
        case created of
          Inl e \<Rightarrow> (Inl (VendorError e), w1)
        | Inr r \<Rightarrow>
            let w2 = set_active_run (Some (run_id r)) w1 in
            (Inr r, w2\<lparr>session := (session w2)\<lparr>emitted_cot_set := Some {},
                                                 emitted_url_lines := Some {}\<rparr>\<rparr>))"

definition end_run :: "dr_world \<Rightarrow> dr_world" where
  "end_run w = set_active_run None w"

subsection \<open>Final results\<close>

text \<open>
  The loop of \<^verbatim>\<open>_display_final_results\<close> over the annotations, with its two local variables
  \<^verbatim>\<open>seen_urls\<close> and \<^verbatim>\<open>references\<close>.
\<close>

definition display_title :: "annotation \<Rightarrow> string" where
  "display_title ann = (case title ann of None \<Rightarrow> url ann | Some t \<Rightarrow> if t = [] then url ann else t)"

definition reference_line :: "annotation \<Rightarrow> string" where
  "reference_line ann = ''- ['' @ display_title ann @ '']('' @ url ann @ '')''"

fun collect_references :: "annotation list \<Rightarrow> string set \<Rightarrow> string list \<Rightarrow> string list" where
  "collect_references [] seen_urls references = references"
| "collect_references (ann # anns) seen_urls references =
     (if url ann \<notin> seen_urls
      then collect_references anns (insert (url ann) seen_urls) (references @ [reference_line ann])
      else collect_references anns seen_urls references)"

text \<open>
  \<^verbatim>\<open>_display_final_results\<close>.  \<open>fetched\<close> is the outcome of \<^verbatim>\<open>get_last_message_by_role\<close>: the
  text of the exception, or the message (\<open>None\<close> when there is none).
\<close>

definition display_final_results ::
  "string + thread_message option \<Rightarrow> string \<Rightarrow> dr_world \<Rightarrow> dr_world" where
  "display_final_results fetched tid w =
     (let w1 = emit (Vendor (MessagesGetLast tid)) w in
      case fetched of
        Inl e \<Rightarrow> emit (ResultToken (Plain (''Error retrieving final results: '' @ e))) w1
      | Inr None \<Rightarrow> emit (ResultToken (Plain ''No results available.'')) w1
      | Inr (Some m) \<Rightarrow>
          let w2 = (if text_messages m \<noteq> []
                    then emit (ResultToken (Plain (py_join ''\<newline>\<newline>'' (map py_strip (text_messages m))))) w1
                    else emit (ResultToken (Plain ''No content available.'')) w1)
          in if url_citation_annotations m \<noteq> []
             then (let references = collect_references (url_citation_annotations m) {} []
                   in if references \<noteq> []
                      then emit (ResultToken (Plain (''\<newline>\<newline>### References\<newline>'' @ py_join ''\<newline>'' references))) w2
                      else w2)
             else w2)"


subsection \<open>Progress polling\<close>

text \<open>
  One turn of the \<^verbatim>\<open>while True\<close> loop reads three things from outside: what
  \<^verbatim>\<open>agents_client.runs.get\<close> does (it raises, or returns the run), what
  \<^verbatim>\<open>get_last_message_by_role\<close> does when the turn calls it, and the value of \<^verbatim>\<open>time.time()\<close> at
  the one timeout check of the turn.  Times are real numbers; the rounding of Python's floats
  is not modelled.
\<close>

datatype fetch_error =
    HttpResponseError string
  | OtherException string

record observation =
  run_fetched :: "fetch_error + run"
  message_fetched :: "string + thread_message option"
  clock :: real

text \<open>
  The configuration of the loop: the result of \<^verbatim>\<open>re.search(cot_pattern, text)\<close> as a function
  from the text to \<^verbatim>\<open>group(1)\<close> of the match (the regular expression engine is not modelled),
  \<^verbatim>\<open>poll_interval\<close>, \<^verbatim>\<open>timeout_sec\<close>, and the identifiers of the thread and the run.
\<close>

record poll_config =
  cot_search :: "string \<Rightarrow> string option"
  poll_interval :: real
  timeout_sec :: int
  poll_thread :: string
  poll_run :: string

text \<open>
  The state of the loop: the world and the two local sets \<^verbatim>\<open>emitted_cot_set\<close> and
  \<^verbatim>\<open>emitted_url_lines\<close>.
\<close>

record poll_state =
  world :: dr_world
  cot_local :: "string set"
  url_local :: "string set"

definition say :: "dr_event \<Rightarrow> poll_state \<Rightarrow> poll_state" where
  "say e st = st\<lparr>world := emit e (world st)\<rparr>"

definition store_cot_set :: "poll_state \<Rightarrow> poll_state" where
  "store_cot_set st =
     st\<lparr>world := (world st)\<lparr>session := (session (world st))\<lparr>emitted_cot_set := Some (cot_local st)\<rparr>\<rparr>\<rparr>"

definition store_url_lines :: "poll_state \<Rightarrow> poll_state" where
  "store_url_lines st =
     st\<lparr>world := (world st)\<lparr>session := (session (world st))\<lparr>emitted_url_lines := Some (url_local st)\<rparr>\<rparr>\<rparr>"

definition show_cot :: "poll_config \<Rightarrow> string \<Rightarrow> poll_state \<Rightarrow> poll_state" where
  "show_cot cfg text st =
     (case cot_search cfg text of
        None \<Rightarrow> st
      | Some g \<Rightarrow>
          let cot_content = py_strip g in
          if cot_content \<noteq> []
          then (let cot_block = ''cot_summary: '' @ cot_content in
                if cot_block \<notin> cot_local st
                then store_cot_set
                       ((say (StatusToken (CotSummary cot_block)) st)\<lparr>cot_local := insert cot_block (cot_local st)\<rparr>)
                else st)
          else st)"

fun show_citations :: "annotation list \<Rightarrow> poll_state \<Rightarrow> poll_state" where
  "show_citations [] st = st"
| "show_citations (ann # anns) st =
     (let citation = ''['' @ display_title ann @ '']('' @ url ann @ '')'' in
      if citation \<notin> url_local st
      then show_citations anns
             ((say (StatusToken (UrlCitationLine citation)) st)\<lparr>url_local := insert citation (url_local st)\<rparr>)
      else show_citations anns st)"

text \<open>
  The \<^verbatim>\<open>try\<close> block of the branch for \<^verbatim>\<open>queued\<close> and \<^verbatim>\<open>in_progress\<close>; an exception of the fetch
  is swallowed by \<^verbatim>\<open>except Exception: pass\<close>.
\<close>

definition show_progress :: "poll_config \<Rightarrow> string + thread_message option \<Rightarrow> poll_state \<Rightarrow> poll_state" where
  "show_progress cfg fetched st =
     (let st1 = say (Vendor (MessagesGetLast (poll_thread cfg))) st in
      case fetched of
        Inl e \<Rightarrow> st1
      | Inr None \<Rightarrow> st1
      | Inr (Some m) \<Rightarrow>
          if text_messages m \<noteq> []
          then (let text = py_join ''\<newline>\<newline>'' (map py_strip (text_messages m));
                    st2 = show_cot cfg text st1
                in if url_citation_annotations m \<noteq> []
                   then store_url_lines (show_citations (url_citation_annotations m) st2)
                   else st2)
          else st1)"

definition timed_out :: "poll_config \<Rightarrow> real \<Rightarrow> observation \<Rightarrow> bool" where
  "timed_out cfg start_time ob = (clock ob - start_time > real_of_int (timeout_sec cfg))"

text \<open>
  The loop, by recursion on the observations still to come.  The result is \<open>(True, st)\<close> when
  the loop has left through a \<^verbatim>\<open>break\<close>, and \<open>(False, st)\<close> when the observations are used up
  and the loop is still running.
\<close>

fun poll_loop :: "poll_config \<Rightarrow> real \<Rightarrow> observation list \<Rightarrow> poll_state \<Rightarrow> bool \<times> poll_state" where
  "poll_loop cfg start_time [] st = (False, st)"
| "poll_loop cfg start_time (ob # obs) st =
     (let st0 = say (Vendor (RunsGet (poll_thread cfg) (poll_run cfg))) st in
      case run_fetched ob of
        Inl (HttpResponseError e) \<Rightarrow>
          (let st1 = say (Sleep (poll_interval cfg)) (say (StatusToken (ErrorGettingStatus e)) st0) in
           if timed_out cfg start_time ob
           then (True, say (StatusToken TimeoutExceeded) st1)
           else poll_loop cfg start_time obs st1)
      | Inl (OtherException e) \<Rightarrow>
          (let st1 = say (Sleep (poll_interval cfg)) (say (StatusToken (UnexpectedError e)) st0) in
           if timed_out cfg start_time ob
           then (True, say (StatusToken TimeoutExceeded) st1)
           else poll_loop cfg start_time obs st1)
      | Inr r \<Rightarrow>
          if status r = ''queued'' \<or> status r = ''in_progress''
          then (let st1 = show_progress cfg (message_fetched ob) st0 in
                if timed_out cfg start_time ob
                then (True, say (StatusToken TimeoutExceeded) st1)
                else poll_loop cfg start_time obs (say (Sleep (poll_interval cfg)) st1))
          else if status r = ''failed''
          then (let st1 = say (StatusToken RunFailed) st0 in
                case last_error r of
                  None \<Rightarrow> (True, st1)
                | Some e \<Rightarrow> (True, say (StatusToken (ErrorDetail e)) st1))
          else (True, st0))"

text \<open>
  \<^verbatim>\<open>_poll_run_and_show_progress\<close>: the two local sets start from the session
  (\<^verbatim>\<open>cl.user_session.get(...) or set()\<close>), \<open>start_time\<close> is the first \<^verbatim>\<open>time.time()\<close>.
\<close>

definition or_empty :: "string set option \<Rightarrow> string set" where
  "or_empty v = (case v of None \<Rightarrow> {} | Some S \<Rightarrow> S)"

definition poll_run_and_show_progress ::
  "poll_config \<Rightarrow> real \<Rightarrow> observation list \<Rightarrow> dr_world \<Rightarrow> bool \<times> poll_state" where
  "poll_run_and_show_progress cfg start_time obs w =
     poll_loop cfg start_time obs
       \<lparr>world = w,
        cot_local = or_empty (emitted_cot_set (session w)),
        url_local = or_empty (emitted_url_lines (session w))\<rparr>"

subsection \<open>The message handler\<close>

text \<open>
  What one call of \<^verbatim>\<open>on_message\<close> reads from outside.  \<open>clients_failed\<close>, \<open>message_failed\<close>:
  the text of the exception when \<^verbatim>\<open>_create_clients\<close> or \<^verbatim>\<open>messages.create\<close> raises;
  \<open>thread_created\<close>, \<open>run_created\<close>: what \<^verbatim>\<open>threads.create\<close> and \<^verbatim>\<open>runs.create\<close> do when called.
\<close>

record dr_input =
  content :: string
  project_endpoint :: string
  agent_id :: string
  clients_failed :: "string option"
  thread_created :: "string + string"
  message_failed :: "string option"
  run_created :: "string + run"
  poll_cot_search :: "string \<Rightarrow> string option"
  poll_interval_sec :: real
  run_timeout_sec :: int
  start_time :: real
  observations :: "observation list"
  final_fetched :: "string + thread_message option"

text \<open>
  \<open>Returned\<close>: the handler has returned.  \<open>Polling\<close>: the handler is suspended inside the
  polling loop, every observation given to it being used up.
\<close>

datatype handler_state = Returned | Polling

definition error_text :: "dr_error \<Rightarrow> string" where
  "error_text err = (case err of RuntimeError m \<Rightarrow> m | VendorError m \<Rightarrow> m)"

definition get_or_create_thread_id :: "string + string \<Rightarrow> dr_world \<Rightarrow> (string + string) \<times> dr_world" where
  "get_or_create_thread_id created w =
     (case thread_id (session w) of
        Some t \<Rightarrow>
          if t \<noteq> [] then (Inr t, w)
          else (case created of
                  Inl e \<Rightarrow> (Inl e, emit (Vendor ThreadsCreate) w)
                | Inr t' \<Rightarrow> (Inr t', (emit (Vendor ThreadsCreate) w)\<lparr>session := (session w)\<lparr>thread_id := Some t'\<rparr>\<rparr>))
      | None \<Rightarrow>
          (case created of
             Inl e \<Rightarrow> (Inl e, emit (Vendor ThreadsCreate) w)
           | Inr t' \<Rightarrow> (Inr t', (emit (Vendor ThreadsCreate) w)\<lparr>session := (session w)\<lparr>thread_id := Some t'\<rparr>\<rparr>)))"

definition on_message :: "dr_input \<Rightarrow> dr_world \<Rightarrow> handler_state \<times> dr_world" where
  "on_message inp w =
     (let user_query = py_strip (content inp) in
      if user_query = [] then (Returned, emit (SendMessage ProvideQuestion) w)
      else if project_endpoint inp = [] \<or> agent_id inp = []
      then (Returned, emit (SendMessage MissingEnvironment) w)
      else
        let w1 = emit (SendMessage ResultsPanel) (emit (SendMessage StatusPanel) w) in
        case clients_failed inp of
          Some e \<Rightarrow> (Returned, emit (StatusToken (FailedToInit e)) w1)
        | None \<Rightarrow>
           (case get_or_create_thread_id (thread_created inp) w1 of
              (Inl e, w2) \<Rightarrow> (Returned, end_run (emit (StatusToken (UnexpectedError e)) w2))
            | (Inr tid, w2) \<Rightarrow>
                if is_run_active w2
                then (Returned, emit (SendMessage AnotherInProgress) w2)
                else
                  let w3 = emit (Vendor (MessagesCreate tid ''user'' user_query)) w2 in
                  case message_failed inp of
                    Some e \<Rightarrow> (Returned, end_run (emit (StatusToken (UnexpectedError e)) w3))
                  | None \<Rightarrow>
                     (case start_run (run_created inp) tid (agent_id inp) w3 of
                        (Inl err, w4) \<Rightarrow>
                          (Returned, end_run (emit (StatusToken (FailedToStart (error_text err))) w4))
                      | (Inr r, w4) \<Rightarrow>
                          (case poll_run_and_show_progress
                                  \<lparr>cot_search = poll_cot_search inp,
                                   poll_interval = poll_interval_sec inp,
                                   timeout_sec = run_timeout_sec inp,
                                   poll_thread = tid,
                                   poll_run = run_id r\<rparr>
                                  (start_time inp) (observations inp) w4 of
                             (False, st) \<Rightarrow> (Polling, world st)
                           | (True, st) \<Rightarrow>
                               (Returned, end_run (display_final_results (final_fetched inp) tid (world st)))))))"

section \<open>Realtime flow: \<^verbatim>\<open>azure_realtimeapi_agent/app.py\<close> and \<^verbatim>\<open>azure_realtimeapi_async_fc/app.py\<close>\<close>

text \<open>
  The second file is the first one plus the tool calls: one more session key, two more
  branches in the dispatcher, and the functions that run a tool.  The functions that both
  files have are the same text in both.  \<open>app\<close> says which file is meant where they differ.
\<close>

datatype app = RealtimeAgent | RealtimeAsyncFc

subsection \<open>Values, the session store and the trace\<close>

datatype key =
    KConn
  | KRecvTask
  | KCm
  | KTrackId
  | KIsGenerating
  | KIsPlaying
  | KCurrentResponseMsg
  | KCurrentUserMsg
  | KTextStreamLocked
  | KPendingFunctionCalls

text \<open>
  One entry of the dictionary under \<^verbatim>\<open>KEY_PENDING_FUNCTION_CALLS\<close>:
  \<^verbatim>\<open>{"name": ..., "arguments": ..., "item_id": ...}\<close>.
\<close>

record pending_call =
  pc_name :: string
  pc_arguments :: string
  pc_item_id :: "string option"

text \<open>
  The Python values that the session store and the attributes of an event hold: \<open>None\<close>, a
  boolean, a string, a byte string, an object known by its identity (a message, a step, a
  connection, a task), and the dictionary of pending calls in insertion order.
\<close>

datatype pyval =
    PNone
  | PBool bool
  | PStr string
  | PBytes string
  | PObj nat
  | PCalls "(string \<times> pending_call) list"

fun truthy :: "pyval \<Rightarrow> bool" where
  "truthy PNone = False"
| "truthy (PBool b) = b"
| "truthy (PStr s) = (s \<noteq> [])"
| "truthy (PBytes s) = (s \<noteq> [])"
| "truthy (PObj n) = True"
| "truthy (PCalls kvs) = (kvs \<noteq> [])"

text \<open>
  JSON values as \<^verbatim>\<open>json.loads\<close> returns them and \<^verbatim>\<open>json.dumps\<close> takes them.  Floats are left out.
\<close>

datatype json =
    JNull
  | JBool bool
  | JInt int
  | JStr string
  | JArr "json list"
  | JObj "(string \<times> json) list"

text \<open>
  The texts that the source sends to the UI in Japanese are constructors: \<open>NotConnected\<close> is
  the notice of \<^verbatim>\<open>on_message\<close> when there is no connection, \<open>Greeting\<close> the message of
  \<^verbatim>\<open>on_chat_start\<close>, \<open>AudioModeStarted\<close> and \<open>AudioModeStopped\<close> the messages of \<^verbatim>\<open>on_audio_start\<close>
  and \<^verbatim>\<open>on_audio_end\<close>, \<open>ConnectionFailed e\<close> the error message of \<^verbatim>\<open>on_audio_start\<close>.
  \<open>AuthorAgent\<close> is the author of the agent's bubble, \<open>AuthorUser\<close> is \<^verbatim>\<open>author="user"\<close> with
  \<^verbatim>\<open>type="user_message"\<close>, \<open>AuthorDefault\<close> is a message built without an author.
\<close>

datatype author = AuthorAgent | AuthorUser | AuthorDefault

datatype content =
    Text string
  | NotConnected
  | Greeting
  | AudioModeStarted
  | AudioModeStopped
  | ConnectionFailed string

text \<open>
  The argument of \<^verbatim>\<open>connection.response.create\<close>: \<open>UserTurn\<close> is the dictionary that
  \<^verbatim>\<open>on_message\<close> passes, \<open>ToolFollowUp\<close> the one that the tool task passes after a result,
  \<open>NoOptions\<close> the call without an argument.  The argument of
  \<^verbatim>\<open>connection.conversation.item.create\<close>: a user message with its text, or a
  \<^verbatim>\<open>function_call_output\<close> with \<^verbatim>\<open>call_id\<close> and \<^verbatim>\<open>output\<close>.
\<close>

datatype response_options = UserTurn | ToolFollowUp | NoOptions

datatype item =
    UserText string
  | FunctionCallOutput string string

text \<open>
  The calls that are awaited.  The first argument of a transport call is the connection, of a
  message or step call the object.  The texts of a step (\<^verbatim>\<open>step.input\<close>, \<^verbatim>\<open>step.output\<close>,
  \<^verbatim>\<open>step.is_error\<close>) are not modelled.
\<close>

datatype call =
    MessageSend nat author content
  | ErrorMessageSend nat content
  | StreamToken pyval string
  | MessageUpdate pyval
  | SendAudioChunk string string
  | SendAudioInterrupt
  | ResponseCancel pyval
  | ResponseCreate pyval response_options
  | ConversationItemCreate pyval item
  | InputAudioBufferAppend pyval string
  | StepSend nat "string option"
  | StepUpdate nat
  | ToolCall string json json
  | RealtimeConnect nat
  | SessionUpdate nat
  | TaskJoin pyval
  | ConnectionExit pyval

datatype task =
    ReceiveEventsLoop nat
  | ExecuteFunctionCallAsync pyval string "string option" string

text \<open>
  The trace: every read and write of \<^verbatim>\<open>cl.user_session\<close>, every awaited call, followed by
  \<open>Raised m\<close> when the call raises, every \<^verbatim>\<open>asyncio.create_task\<close> and every \<^verbatim>\<open>task.cancel()\<close>, in
  program order.  The calls of the logger are left out.
\<close>

datatype rt_event =
    Get key pyval
  | Set key pyval
  | Await call
  | Raised string
  | CreateTask nat task
  | CancelTask pyval

text \<open>
  What a coroutine meets and cannot choose.  \<open>uuid4 n\<close> is the string of the \<open>n\<close>-th
  \<^verbatim>\<open>uuid4()\<close>.  \<open>fault n\<close> tells whether the \<open>n\<close>-th awaited call raises, and with which text.
  \<open>interleave n\<close> is what the other coroutines of the session do to the store while the
  \<open>n\<close>-th awaited call is pending: control leaves a coroutine only at an \<^verbatim>\<open>await\<close>.
  \<open>loads\<close> is \<^verbatim>\<open>json.loads\<close> and \<open>b64decode\<close> is \<^verbatim>\<open>base64.b64decode\<close>, with \<open>Inl\<close> for the text of
  the exception raised.  \<open>get_weather\<close> and \<open>search_database\<close> are the two tools with their two
  arguments, \<open>task_done\<close> is \<^verbatim>\<open>recv_task.done()\<close>.
\<close>

record env =
  uuid4 :: "nat \<Rightarrow> string"
  fault :: "nat \<Rightarrow> string option"
  interleave :: "nat \<Rightarrow> (key \<Rightarrow> pyval) \<Rightarrow> key \<Rightarrow> pyval"
  loads :: "string \<Rightarrow> string + json"
  b64decode :: "string \<Rightarrow> string + string"
  get_weather :: "json \<Rightarrow> json \<Rightarrow> string + json"
  search_database :: "json \<Rightarrow> json \<Rightarrow> string + json"
  task_done :: bool

text \<open>
  The state of one session: the store, the trace, and how many objects, identifiers and
  awaited calls there have been.
\<close>

record rt_world =
  store :: "key \<Rightarrow> pyval"
  trace :: "rt_event list"
  fresh :: nat
  drawn :: nat
  awaited :: nat

subsection \<open>Coroutines\<close>

text \<open>
  A coroutine body returns a value or raises (\<open>Inl\<close>, with the text of the exception), and
  changes the world.
\<close>

type_synonym 'a action = "env \<Rightarrow> rt_world \<Rightarrow> (string + 'a) \<times> rt_world"

definition ret :: "'a \<Rightarrow> 'a action" where
  "ret x = (\<lambda>e w. (Inr x, w))"

definition raise :: "string \<Rightarrow> 'a action" where
  "raise m = (\<lambda>e w. (Inl m, w))"

definition bind_act :: "'a action \<Rightarrow> ('a \<Rightarrow> 'b action) \<Rightarrow> 'b action" where
  "bind_act m f = (\<lambda>e w. case m e w of (Inl x, w') \<Rightarrow> (Inl x, w') | (Inr a, w') \<Rightarrow> f a e w')"

definition then_act :: "'a action \<Rightarrow> 'b action \<Rightarrow> 'b action" where
  "then_act m k = bind_act m (\<lambda>_. k)"

definition try_except :: "'a action \<Rightarrow> (string \<Rightarrow> 'a action) \<Rightarrow> 'a action" where
  "try_except m h = (\<lambda>e w. case m e w of (Inl x, w') \<Rightarrow> h x e w' | (Inr a, w') \<Rightarrow> (Inr a, w'))"

definition log :: "rt_event \<Rightarrow> rt_world \<Rightarrow> rt_world" where
  "log ev w = w\<lparr>trace := trace w @ [ev]\<rparr>"

definition session_get :: "key \<Rightarrow> pyval action" where
  "session_get k = (\<lambda>e w. (Inr (store w k), log (Get k (store w k)) w))"

definition session_set :: "key \<Rightarrow> pyval \<Rightarrow> unit action" where
  "session_set k v = (\<lambda>e w. (Inr (), (log (Set k v) w)\<lparr>store := (store w)(k := v)\<rparr>))"

definition suspend :: "env \<Rightarrow> rt_world \<Rightarrow> rt_world" where
  "suspend e w = w\<lparr>awaited := Suc (awaited w), store := interleave e (awaited w) (store w)\<rparr>"

definition await :: "call \<Rightarrow> unit action" where
  "await c = (\<lambda>e w. case fault e (awaited w) of
                      None \<Rightarrow> (Inr (), suspend e (log (Await c) w))
                    | Some m \<Rightarrow> (Inl m, log (Raised m) (suspend e (log (Await c) w))))"

definition new_object :: "nat action" where
  "new_object = (\<lambda>e w. (Inr (fresh w), w\<lparr>fresh := Suc (fresh w)\<rparr>))"

definition str_uuid4 :: "string action" where
  "str_uuid4 = (\<lambda>e w. (Inr (uuid4 e (drawn w)), w\<lparr>drawn := Suc (drawn w)\<rparr>))"

definition create_task :: "task \<Rightarrow> nat action" where
  "create_task t = bind_act new_object (\<lambda>n e w. (Inr n, log (CreateTask n t) w))"

subsection \<open>Session defaults and the track identifier\<close>

definition session_defaults :: "app \<Rightarrow> string \<Rightarrow> (key \<times> pyval) list" where
  "session_defaults a u =
     [(KIsGenerating, PBool False), (KIsPlaying, PBool False), (KTrackId, PStr u),
      (KTextStreamLocked, PBool False), (KCurrentResponseMsg, PNone), (KCurrentUserMsg, PNone)]
     @ (case a of RealtimeAgent \<Rightarrow> [] | RealtimeAsyncFc \<Rightarrow> [(KPendingFunctionCalls, PCalls [])])"

fun set_defaults :: "(key \<times> pyval) list \<Rightarrow> unit action" where
  "set_defaults [] = ret ()"
| "set_defaults ((k, v) # kvs) =
     bind_act (session_get k) (\<lambda>cur.
       then_act (if cur = PNone then session_set k v else ret ()) (set_defaults kvs))"

definition ensure_session_defaults :: "app \<Rightarrow> unit action" where
  "ensure_session_defaults a = bind_act str_uuid4 (\<lambda>u. set_defaults (session_defaults a u))"

definition fresh_track_id :: "string action" where
  "fresh_track_id = bind_act str_uuid4 (\<lambda>u. then_act (session_set KTrackId (PStr u)) (ret u))"

definition get_track_id :: "string action" where
  "get_track_id =
     bind_act (session_get KTrackId) (\<lambda>tid.
       case tid of
         PStr t \<Rightarrow> if t \<noteq> [] then ret t else fresh_track_id
       | _ \<Rightarrow> fresh_track_id)"

subsection \<open>Handlers of the inbound events\<close>

text \<open>
  An inbound event with the attributes that the handlers read.  \<open>None\<close> in \<open>ev_delta\<close> and
  \<open>ev_transcript\<close> is an attribute that the event does not have; \<open>ev_call_id\<close>, \<open>ev_name\<close> and
  \<open>ev_item_id\<close> are a string or \<open>None\<close> (absent); \<open>ev_arguments\<close> is the string, empty when absent.
\<close>

record event =
  ev_type :: string
  ev_delta :: "pyval option"
  ev_transcript :: "pyval option"
  ev_call_id :: "string option"
  ev_name :: "string option"
  ev_arguments :: string
  ev_item_id :: "string option"

definition getattr :: "pyval option \<Rightarrow> pyval \<Rightarrow> pyval" where
  "getattr attr dflt = (case attr of None \<Rightarrow> dflt | Some v \<Rightarrow> v)"

definition stream_agent_text :: "string \<Rightarrow> unit action" where
  "stream_agent_text delta =
     bind_act (session_get KCurrentResponseMsg) (\<lambda>current_msg.
       if current_msg = PNone
       then bind_act new_object (\<lambda>m.
              then_act (await (MessageSend m AuthorAgent (Text [])))
             (then_act (session_set KCurrentResponseMsg (PObj m))
                       (await (StreamToken (PObj m) delta))))
       else await (StreamToken current_msg delta))"

definition handle_agent_text_delta :: "pyval \<Rightarrow> unit action" where
  "handle_agent_text_delta delta =
     (case delta of
        PStr d \<Rightarrow>
          if d \<noteq> []
          then then_act (session_set KTextStreamLocked (PBool True)) (stream_agent_text d)
          else ret ()
      | _ \<Rightarrow> ret ())"

definition handle_agent_audio_transcript_delta :: "pyval \<Rightarrow> unit action" where
  "handle_agent_audio_transcript_delta delta =
     bind_act (session_get KTextStreamLocked) (\<lambda>locked.
       if \<not> truthy locked
       then (case delta of
               PStr d \<Rightarrow> if d \<noteq> [] then stream_agent_text d else ret ()
             | _ \<Rightarrow> ret ())
       else ret ())"

definition finalize_agent_message :: "unit action" where
  "finalize_agent_message =
     bind_act (session_get KCurrentResponseMsg) (\<lambda>current_msg.
       if current_msg \<noteq> PNone
       then then_act (await (MessageUpdate current_msg)) (session_set KCurrentResponseMsg PNone)
       else ret ())"

definition play_audio :: "string \<Rightarrow> unit action" where
  "play_audio raw_b64 =
     bind_act (\<lambda>e w. (b64decode e raw_b64, w)) (\<lambda>audio_bytes.
     bind_act (session_get KIsPlaying) (\<lambda>playing.
     then_act (if \<not> truthy playing then session_set KIsPlaying (PBool True) else ret ())
    (bind_act get_track_id (\<lambda>track.
       await (SendAudioChunk track audio_bytes)))))"

definition handle_agent_audio_delta :: "pyval \<Rightarrow> unit action" where
  "handle_agent_audio_delta raw_b64 =
     (case raw_b64 of
        PStr b \<Rightarrow> if b \<noteq> [] then play_audio b else ret ()
      | PBytes b \<Rightarrow> if b \<noteq> [] then play_audio b else ret ()
      | _ \<Rightarrow> ret ())"

definition handle_user_transcription_delta :: "pyval \<Rightarrow> unit action" where
  "handle_user_transcription_delta delta =
     (case delta of
        PStr d \<Rightarrow>
          if d \<noteq> []
          then bind_act (session_get KCurrentUserMsg) (\<lambda>user_msg.
                 if user_msg = PNone
                 then bind_act new_object (\<lambda>m.
                        then_act (await (MessageSend m AuthorUser (Text [])))
                       (then_act (session_set KCurrentUserMsg (PObj m))
                                 (await (StreamToken (PObj m) d))))
                 else await (StreamToken user_msg d))
          else ret ()
      | _ \<Rightarrow> ret ())"

definition handle_user_transcription_completed :: "pyval \<Rightarrow> unit action" where
  "handle_user_transcription_completed final_text =
     bind_act (session_get KCurrentUserMsg) (\<lambda>user_msg.
       if user_msg = PNone
       then (case final_text of
               PStr t \<Rightarrow>
                 if py_strip t \<noteq> []
                 then bind_act new_object (\<lambda>m. await (MessageSend m AuthorUser (Text t)))
                 else ret ()
             | _ \<Rightarrow> ret ())
       else then_act (await (MessageUpdate user_msg)) (session_set KCurrentUserMsg PNone))"

definition handle_user_transcription_failed :: "unit action" where
  "handle_user_transcription_failed =
     bind_act (session_get KCurrentUserMsg) (\<lambda>user_msg.
       if user_msg \<noteq> PNone
       then then_act (await (MessageUpdate user_msg)) (session_set KCurrentUserMsg PNone)
       else ret ())"

definition handle_response_done :: "unit action" where
  "handle_response_done =
     then_act (session_set KIsGenerating (PBool False))
    (then_act (session_set KIsPlaying (PBool False))
    (then_act (session_set KTextStreamLocked (PBool False))
              finalize_agent_message))"

definition handle_error_event :: "unit action" where
  "handle_error_event =
     then_act (session_set KIsGenerating (PBool False))
    (then_act (session_set KTextStreamLocked (PBool False))
    (then_act finalize_agent_message
              handle_user_transcription_failed))"

subsection \<open>Pending tool calls\<close>

text \<open>
  \<^verbatim>\<open>cl.user_session.get(KEY_PENDING_FUNCTION_CALLS) or {}\<close>: the dictionary of the session when it
  is not empty, a new empty dictionary when the value is falsy.  A truthy value that is not a
  dictionary makes the next statement raise.
\<close>

definition pending_or_empty :: "pyval \<Rightarrow> (string \<times> pending_call) list action" where
  "pending_or_empty v =
     (case v of
        PCalls kvs \<Rightarrow> ret kvs
      | _ \<Rightarrow> if truthy v then raise ''TypeError'' else ret [])"

text \<open>
  A dictionary that came from the session is the session's own object, and an assignment to
  one of its keys is seen in the store at once, before \<^verbatim>\<open>cl.user_session.set\<close> is called.
\<close>

definition mutate_in_place :: "pyval \<Rightarrow> (string \<times> pending_call) list \<Rightarrow> unit action" where
  "mutate_in_place v kvs =
     (\<lambda>e w. (Inr (), if truthy v then w\<lparr>store := (store w)(KPendingFunctionCalls := PCalls kvs)\<rparr> else w))"

text \<open>
  \<^verbatim>\<open>pending_calls[call_id]["arguments"] += delta\<close> raises a \<^verbatim>\<open>TypeError\<close> when \<open>delta\<close> is not a string.
\<close>

definition str_of_delta :: "pyval option \<Rightarrow> string action" where
  "str_of_delta attr =
     (case getattr attr (PStr []) of
        PStr d \<Rightarrow> ret d
      | _ \<Rightarrow> raise ''TypeError'')"

definition append_arguments :: "string \<Rightarrow> pending_call \<Rightarrow> pending_call" where
  "append_arguments d pc = pc\<lparr>pc_arguments := pc_arguments pc @ d\<rparr>"

definition handle_function_call_arguments_delta :: "event \<Rightarrow> unit action" where
  "handle_function_call_arguments_delta ev =
     (case ev_call_id ev of
        None \<Rightarrow> ret ()
      | Some c \<Rightarrow>
          if c = [] then ret ()
          else
            bind_act (session_get KPendingFunctionCalls) (\<lambda>v.
            bind_act (pending_or_empty v) (\<lambda>pending_calls.
              let calls1 = (if c \<notin> fst ` set pending_calls
                            then pending_calls @ [(c, \<lparr>pc_name = [], pc_arguments = [], pc_item_id = ev_item_id ev\<rparr>)]
                            else pending_calls)
              in then_act (mutate_in_place v calls1)
                (bind_act (str_of_delta (ev_delta ev)) (\<lambda>d.
                   let calls2 = AList.map_entry c (append_arguments d) calls1
                   in then_act (mutate_in_place v calls2)
                               (session_set KPendingFunctionCalls (PCalls calls2)))))))"

definition handle_function_call_arguments_done :: "event \<Rightarrow> unit action" where
  "handle_function_call_arguments_done ev =
     (case ev_call_id ev of
        None \<Rightarrow> ret ()
      | Some c \<Rightarrow>
          if c = [] then ret ()
          else
            bind_act (session_get KConn) (\<lambda>connection.
              if connection = PNone then ret ()
              else
                bind_act (create_task (ExecuteFunctionCallAsync connection c (ev_name ev) (ev_arguments ev))) (\<lambda>_.
                bind_act (session_get KPendingFunctionCalls) (\<lambda>v.
                bind_act (pending_or_empty v) (\<lambda>pending_calls.
                  if c \<in> fst ` set pending_calls
                  then (let calls1 = AList.delete c pending_calls
                        in then_act (mutate_in_place v calls1)
                                    (session_set KPendingFunctionCalls (PCalls calls1)))
                  else ret ())))))"

subsection \<open>The dispatcher\<close>

definition py_endswith :: "string \<Rightarrow> string \<Rightarrow> bool" where
  "py_endswith s suffix = (length suffix \<le> length s \<and> drop (length s - length suffix) s = suffix)"

definition dispatch :: "app \<Rightarrow> event \<Rightarrow> unit action" where
  "dispatch a ev =
     (let event_type = ev_type ev in
      if event_type = ''response.text.delta''
      then handle_agent_text_delta (getattr (ev_delta ev) PNone)
      else if event_type = ''response.audio_transcript.delta''
      then handle_agent_audio_transcript_delta (getattr (ev_delta ev) PNone)
      else if event_type = ''response.text.done'' \<or> event_type = ''response.audio_transcript.done''
      then finalize_agent_message
      else if event_type = ''response.audio.delta''
      then handle_agent_audio_delta (getattr (ev_delta ev) PNone)
      else if event_type = ''conversation.item.input_audio_transcription.delta''
      then handle_user_transcription_delta (getattr (ev_delta ev) PNone)
      else if event_type = ''conversation.item.input_audio_transcription.completed''
      then handle_user_transcription_completed (getattr (ev_transcript ev) (PStr []))
      else if event_type = ''conversation.item.input_audio_transcription.failed''
      then handle_user_transcription_failed
      else if a = RealtimeAsyncFc \<and> event_type = ''response.function_call_arguments.delta''
      then handle_function_call_arguments_delta ev
      else if a = RealtimeAsyncFc \<and> event_type = ''response.function_call_arguments.done''
      then handle_function_call_arguments_done ev
      else if event_type = ''response.done''
      then handle_response_done
      else if event_type = ''error'' \<or> py_endswith event_type ''.error''
      then handle_error_event
      else ret ())"

text \<open>
  \<^verbatim>\<open>_receive_events_loop\<close> on the events that arrive, in their order.  The loop is one \<^verbatim>\<open>try\<close>
  block: an exception of a handler ends it.  Waiting for the next event is a point where the
  other coroutines run.
\<close>

definition next_event :: "unit action" where
  "next_event = (\<lambda>e w. (Inr (), suspend e w))"

fun handle_events :: "app \<Rightarrow> event list \<Rightarrow> unit action" where
  "handle_events a [] = ret ()"
| "handle_events a (ev # evs) = then_act next_event (then_act (dispatch a ev) (handle_events a evs))"

definition receive_events_loop :: "app \<Rightarrow> event list \<Rightarrow> unit action" where
  "receive_events_loop a evs = try_except (handle_events a evs) (\<lambda>x. ret ())"

subsection \<open>JSON text\<close>

text \<open>
  \<^verbatim>\<open>json.dumps(obj, ensure_ascii=False)\<close> with the default separators: the characters that
  \<^verbatim>\<open>ESCAPE_DCT\<close> of the encoder replaces are the quote, the backslash and the code points below
  32, every other character stands for itself.
\<close>

definition digit_char :: "nat \<Rightarrow> char" where
  "digit_char n = ''0123456789abcdef'' ! (n mod 16)"

function dec_of_nat :: "nat \<Rightarrow> string" where
  "dec_of_nat n = (if n < 10 then [digit_char n] else dec_of_nat (n div 10) @ [digit_char (n mod 10)])"
  by pat_completeness auto
termination
  by (relation "measure id") auto

definition dec_of_int :: "int \<Rightarrow> string" where
  "dec_of_int i = (if i < 0 then CHR ''-'' # dec_of_nat (nat (- i)) else dec_of_nat (nat i))"

definition escape_char :: "char \<Rightarrow> string" where
  "escape_char c =
     (if c = CHR 0x22 then [CHR 0x5C, CHR 0x22]
      else if c = CHR 0x5C then [CHR 0x5C, CHR 0x5C]
      else if c = CHR 0x0A then [CHR 0x5C, CHR ''n'']
      else if c = CHR 0x0D then [CHR 0x5C, CHR ''r'']
      else if c = CHR 0x09 then [CHR 0x5C, CHR ''t'']
      else if c = CHR 0x08 then [CHR 0x5C, CHR ''b'']
      else if c = CHR 0x0C then [CHR 0x5C, CHR ''f'']
      else if (of_char c :: nat) < 32
      then [CHR 0x5C, CHR ''u'', CHR ''0'', CHR ''0'', digit_char (of_char c div 16), digit_char (of_char c mod 16)]
      else [c])"

definition encode_basestring :: "string \<Rightarrow> string" where
  "encode_basestring s = [CHR 0x22] @ concat (map escape_char s) @ [CHR 0x22]"

fun json_dumps :: "json \<Rightarrow> string" where
  "json_dumps JNull = ''null''"
| "json_dumps (JBool b) = (if b then ''true'' else ''false'')"
| "json_dumps (JInt i) = dec_of_int i"
| "json_dumps (JStr s) = encode_basestring s"
| "json_dumps (JArr xs) = ''['' @ py_join '', '' (map json_dumps xs) @ '']''"
| "json_dumps (JObj kvs) =
     ''{'' @ py_join '', '' (map (\<lambda>kv. encode_basestring (fst kv) @ '': '' @ json_dumps (snd kv)) kvs) @ ''}''"

subsection \<open>Running a tool\<close>

definition type_name :: "json \<Rightarrow> string" where
  "type_name v =
     (case v of
        JNull \<Rightarrow> ''NoneType''
      | JBool b \<Rightarrow> ''bool''
      | JInt i \<Rightarrow> ''int''
      | JStr s \<Rightarrow> ''str''
      | JArr xs \<Rightarrow> ''list''
      | JObj kvs \<Rightarrow> ''dict'')"

text \<open>
  \<^verbatim>\<open>args.get(k, default)\<close>: a lookup when \<open>args\<close> is a dictionary, an \<^verbatim>\<open>AttributeError\<close> otherwise.
\<close>

definition dict_get :: "json \<Rightarrow> string \<Rightarrow> json \<Rightarrow> json action" where
  "dict_get args k dflt =
     (case args of
        JObj kvs \<Rightarrow> ret (case map_of kvs k of None \<Rightarrow> dflt | Some v \<Rightarrow> v)
      | _ \<Rightarrow> raise ([CHR 0x27] @ type_name args @ [CHR 0x27] @ '' object has no attribute '' @ [CHR 0x27] @ ''get'' @ [CHR 0x27]))"

text \<open>
  Awaiting a tool: the other coroutines run meanwhile, and the tool returns its dictionary or
  raises.
\<close>

definition call_tool :: "(env \<Rightarrow> json \<Rightarrow> json \<Rightarrow> string + json) \<Rightarrow> string \<Rightarrow> json \<Rightarrow> json \<Rightarrow> json action" where
  "call_tool tool tname x y =
     (\<lambda>e w. case tool e x y of
              Inr r \<Rightarrow> (Inr r, suspend e (log (Await (ToolCall tname x y)) w))
            | Inl m \<Rightarrow> (Inl m, log (Raised m) (suspend e (log (Await (ToolCall tname x y)) w))))"

definition str_of_name :: "string option \<Rightarrow> string" where
  "str_of_name n = (case n of None \<Rightarrow> ''None'' | Some s \<Rightarrow> s)"

definition error_payload :: "string \<Rightarrow> string" where
  "error_payload m = json_dumps (JObj [(''error'', JStr m)])"

definition execute_function_call :: "string option \<Rightarrow> string \<Rightarrow> string action" where
  "execute_function_call fname arguments =
     try_except
       (bind_act (\<lambda>e w. (loads e arguments, w)) (\<lambda>args.
          if fname = Some ''get_weather''
          then bind_act (dict_get args ''location'' (JStr [])) (\<lambda>location.
               bind_act (dict_get args ''date'' JNull) (\<lambda>date.
               bind_act (call_tool get_weather ''get_weather'' location date) (\<lambda>result.
                 ret (json_dumps result))))
          else if fname = Some ''search_database''
          then bind_act (dict_get args ''query'' (JStr [])) (\<lambda>query.
               bind_act (dict_get args ''category'' JNull) (\<lambda>category.
               bind_act (call_tool search_database ''search_database'' query category) (\<lambda>result.
                 ret (json_dumps result))))
          else ret (error_payload (''Unknown function: '' @ str_of_name fname))))
       (\<lambda>x. ret (error_payload x))"

text \<open>
  The two places of \<^verbatim>\<open>_execute_function_call_async\<close> that read \<^verbatim>\<open>KEY_IS_GENERATING\<close> after the
  result has been added to the conversation.
\<close>

definition request_response_unless_generating :: "pyval \<Rightarrow> response_options \<Rightarrow> unit action" where
  "request_response_unless_generating connection opts =
     bind_act (session_get KIsGenerating) (\<lambda>generating.
       if \<not> truthy generating
       then then_act (session_set KIsGenerating (PBool True)) (await (ResponseCreate connection opts))
       else ret ())"

definition execute_function_call_async :: "pyval \<Rightarrow> string \<Rightarrow> string option \<Rightarrow> string \<Rightarrow> unit action" where
  "execute_function_call_async connection call_id fname arguments =
     bind_act new_object (\<lambda>step.
     then_act (await (StepSend step fname))
       (try_except
          (then_act (await (StepUpdate step))
          (bind_act (execute_function_call fname arguments) (\<lambda>result.
           then_act (await (StepUpdate step))
          (then_act (await (ConversationItemCreate connection (FunctionCallOutput call_id result)))
                    (request_response_unless_generating connection ToolFollowUp)))))
          (\<lambda>x.
           then_act (await (StepUpdate step))
          (then_act (await (ConversationItemCreate connection (FunctionCallOutput call_id (error_payload x))))
                    (request_response_unless_generating connection NoOptions)))))"

subsection \<open>Handlers of the user's actions\<close>

text \<open>
  The block of \<^verbatim>\<open>on_message\<close> under \<^verbatim>\<open>if is_generating or is_playing\<close>.
\<close>

definition stop_current_response :: "pyval \<Rightarrow> unit action" where
  "stop_current_response connection =
     then_act (try_except (await (ResponseCancel connection)) (\<lambda>x. ret ()))
    (then_act (await SendAudioInterrupt)
    (bind_act str_uuid4 (\<lambda>u.
     then_act (session_set KTrackId (PStr u))
    (then_act (session_set KIsGenerating (PBool False))
    (then_act (session_set KIsPlaying (PBool False))
              finalize_agent_message)))))"

definition generating_or_playing :: "bool action" where
  "generating_or_playing =
     bind_act (session_get KIsGenerating) (\<lambda>generating.
       if truthy generating then ret True
       else bind_act (session_get KIsPlaying) (\<lambda>playing. ret (truthy playing)))"

definition rt_on_message :: "app \<Rightarrow> string \<Rightarrow> unit action" where
  "rt_on_message a text =
     then_act (ensure_session_defaults a)
    (bind_act (session_get KConn) (\<lambda>connection.
       if connection = PNone
       then bind_act new_object (\<lambda>m. await (MessageSend m AuthorDefault NotConnected))
       else
         bind_act generating_or_playing (\<lambda>busy.
         then_act (if busy then stop_current_response connection else ret ())
        (then_act (await (ConversationItemCreate connection (UserText text)))
        (then_act (await (ResponseCreate connection UserTurn))
                  (session_set KIsGenerating (PBool True)))))))"

definition on_chat_start :: "app \<Rightarrow> unit action" where
  "on_chat_start a =
     then_act (ensure_session_defaults a)
              (bind_act new_object (\<lambda>m. await (MessageSend m AuthorDefault Greeting)))"

definition setup_azure_realtime :: "unit action" where
  "setup_azure_realtime =
     bind_act new_object (\<lambda>cm.
     bind_act new_object (\<lambda>connection.
     then_act (await (RealtimeConnect cm))
    (then_act (await (SessionUpdate connection))
    (bind_act (create_task (ReceiveEventsLoop connection)) (\<lambda>recv_task.
     then_act (session_set KConn (PObj connection))
    (then_act (session_set KCm (PObj cm))
    (then_act (session_set KRecvTask (PObj recv_task))
    (then_act get_track_id (ret ())))))))))"

definition on_audio_start :: "app \<Rightarrow> bool action" where
  "on_audio_start a =
     try_except
       (then_act (ensure_session_defaults a)
       (bind_act (session_get KConn) (\<lambda>connection.
        then_act (if connection = PNone then setup_azure_realtime else ret ())
       (bind_act new_object (\<lambda>m.
        then_act (await (MessageSend m AuthorDefault AudioModeStarted)) (ret True))))))
       (\<lambda>x. bind_act new_object (\<lambda>m.
              then_act (await (ErrorMessageSend m (ConnectionFailed x))) (ret False)))"

definition on_audio_chunk :: "string \<Rightarrow> unit action" where
  "on_audio_chunk b64_audio =
     bind_act (session_get KConn) (\<lambda>connection.
       if connection = PNone then ret ()
       else await (InputAudioBufferAppend connection b64_audio))"

definition on_audio_end :: "unit action" where
  "on_audio_end = bind_act new_object (\<lambda>m. await (MessageSend m AuthorDefault AudioModeStopped))"

text \<open>
  \<^verbatim>\<open>on_chat_end\<close>, which is also the handler of \<^verbatim>\<open>on_stop\<close>.
\<close>

definition on_chat_end :: "unit action" where
  "on_chat_end =
     bind_act (session_get KRecvTask) (\<lambda>recv_task.
     then_act (\<lambda>e. (if truthy recv_task \<and> \<not> task_done e
                     then then_act (\<lambda>e w. (Inr (), log (CancelTask recv_task) w))
                                   (try_except (await (TaskJoin recv_task)) (\<lambda>x. ret ()))
                     else ret ()) e)
    (bind_act (session_get KCm) (\<lambda>cm.
     then_act (if cm \<noteq> PNone
               then try_except (await (ConnectionExit cm)) (\<lambda>x. ret ())
               else ret ())
    (then_act (session_set KConn PNone)
    (then_act (session_set KCm PNone)
    (then_act (session_set KRecvTask PNone)
    (then_act (session_set KCurrentResponseMsg PNone)
              (session_set KCurrentUserMsg PNone))))))))"

section \<open>Vocabulary of the properties\<close>



text \<open>
  A session that has never been used, a run as \<^verbatim>\<open>runs.create\<close> returns it, one user message with
  everything that \<^verbatim>\<open>on_message\<close> reads while it handles it, and the session in which that handler
  is suspended in the polling loop, no observation having arrived yet.
\<close>

definition fresh_dr_world :: dr_world where
  "fresh_dr_world = \<lparr>session = \<lparr>thread_id = None, active_run_id = None, emitted_cot_set = None, emitted_url_lines = None\<rparr>, events = []\<rparr>"

definition sample_run :: run where
  "sample_run = \<lparr>run_id = ''run_1'', status = ''queued'', last_error = None\<rparr>"

definition sample_input :: dr_input where
  "sample_input =
     \<lparr>content = '' compare two vendors '', project_endpoint = ''https://project.example'',
      agent_id = ''agent_1'', clients_failed = None, thread_created = Inr ''thread_1'',
      message_failed = None, run_created = Inr sample_run, poll_cot_search = (\<lambda>text. None),
      poll_interval_sec = 3 / 2, run_timeout_sec = 1800, start_time = 0, observations = [],
      final_fetched = Inr None\<rparr>"

definition polling_world :: dr_world where
  "polling_world = snd (on_message sample_input fresh_dr_world)"

text \<open>
  The reasoning summaries and the citations among the events, in their order, and the events
  that a world has gained over an earlier one.
\<close>

definition cot_of :: "dr_event \<Rightarrow> string list" where
  "cot_of ev = (case ev of StatusToken (CotSummary b) \<Rightarrow> [b] | _ \<Rightarrow> [])"

definition citation_of :: "dr_event \<Rightarrow> string list" where
  "citation_of ev = (case ev of StatusToken (UrlCitationLine c) \<Rightarrow> [c] | _ \<Rightarrow> [])"

definition cot_blocks :: "dr_event list \<Rightarrow> string list" where
  "cot_blocks evs = concat (map cot_of evs)"

definition citation_lines :: "dr_event list \<Rightarrow> string list" where
  "citation_lines evs = concat (map citation_of evs)"

definition emitted_since :: "dr_world \<Rightarrow> dr_world \<Rightarrow> dr_event list" where
  "emitted_since w w' = drop (length (events w)) (events w')"

definition stored_cot :: "poll_state \<Rightarrow> string set" where
  "stored_cot st = or_empty (emitted_cot_set (session (world st)))"

definition stored_url :: "poll_state \<Rightarrow> string set" where
  "stored_url st = or_empty (emitted_url_lines (session (world st)))"

text \<open>
  How a later state of the polling loop stands to an earlier one.
\<close>

definition grows :: "poll_state \<Rightarrow> poll_state \<Rightarrow> bool" where
  "grows st st' =
     (\<exists>new. events (world st') = events (world st) @ new
        \<and> distinct (cot_blocks new) \<and> set (cot_blocks new) \<inter> cot_local st = {}
        \<and> cot_local st' = cot_local st \<union> set (cot_blocks new)
        \<and> distinct (citation_lines new) \<and> set (citation_lines new) \<inter> url_local st = {}
        \<and> url_local st' = url_local st \<union> set (citation_lines new)
        \<and> (stored_cot st \<subseteq> cot_local st \<longrightarrow> stored_cot st \<subseteq> stored_cot st' \<and> stored_cot st' \<subseteq> cot_local st')
        \<and> (stored_url st \<subseteq> url_local st \<longrightarrow> stored_url st \<subseteq> stored_url st' \<and> stored_url st' \<subseteq> url_local st'))"

text \<open>
  An observation of a run that has not finished: the fetch raised, or the status is
  \<^verbatim>\<open>queued\<close> or \<^verbatim>\<open>in_progress\<close>.  An event that is neither the timeout notice nor a call of the
  vendor other than the two reads of the loop.
\<close>

definition in_flight :: "observation \<Rightarrow> bool" where
  "in_flight ob =
     (case run_fetched ob of
        Inl err \<Rightarrow> True
      | Inr r \<Rightarrow> status r = ''queued'' \<or> status r = ''in_progress'')"

definition calm :: "poll_config \<Rightarrow> dr_event \<Rightarrow> bool" where
  "calm cfg ev =
     (case ev of
        StatusToken tok \<Rightarrow> tok \<noteq> TimeoutExceeded
      | Vendor c \<Rightarrow> c = RunsGet (poll_thread cfg) (poll_run cfg) \<or> c = MessagesGetLast (poll_thread cfg)
      | _ \<Rightarrow> True)"

definition adds :: "(dr_event \<Rightarrow> bool) \<Rightarrow> poll_state \<Rightarrow> poll_state \<Rightarrow> bool" where
  "adds P st st' = (\<exists>new. events (world st') = events (world st) @ new \<and> (\<forall>ev \<in> set new. P ev))"

text \<open>
  The configuration and the observations of two runs.  The search stands for
  \<^verbatim>\<open>re.search(cot_pattern, text)\<close> on the one text that the messages below hold, where the group
  is the text after the label.  In \<open>sample_polls\<close> the run is in progress twice with the same
  summary and then completed.  In \<open>stuck_polls\<close> the run stays in progress while the clock reads
  0, 2, 4 and 6 seconds after the start, as it does with a poll interval of 2 seconds.
\<close>

definition sample_cot_search :: "string \<Rightarrow> string option" where
  "sample_cot_search text =
     (if text = ''cot_summary: analyzing sources'' then Some ''analyzing sources'' else None)"

definition sample_config :: poll_config where
  "sample_config =
     \<lparr>cot_search = sample_cot_search, poll_interval = 2, timeout_sec = 5,
      poll_thread = ''thread_1'', poll_run = ''run_1''\<rparr>"

definition progress_message :: thread_message where
  "progress_message =
     \<lparr>text_messages = ['' cot_summary: analyzing sources''], url_citation_annotations = []\<rparr>"

definition in_progress_at :: "real \<Rightarrow> observation" where
  "in_progress_at t =
     \<lparr>run_fetched = Inr \<lparr>run_id = ''run_1'', status = ''in_progress'', last_error = None\<rparr>,
      message_fetched = Inr (Some progress_message), clock = t\<rparr>"

definition completed_at :: "real \<Rightarrow> observation" where
  "completed_at t =
     \<lparr>run_fetched = Inr \<lparr>run_id = ''run_1'', status = ''completed'', last_error = None\<rparr>,
      message_fetched = Inr (Some progress_message), clock = t\<rparr>"

definition sample_polls :: "observation list" where
  "sample_polls = [in_progress_at 0, in_progress_at 2, completed_at 4]"

definition stuck_polls :: "observation list" where
  "stuck_polls = [in_progress_at 0, in_progress_at 2, in_progress_at 4]"

text \<open>
  A session whose last run has ended after it had shown the summary, and the same session
  after the next \<^verbatim>\<open>_start_run\<close>.
\<close>

definition ended_world :: dr_world where
  "ended_world =
     \<lparr>session = \<lparr>thread_id = Some ''thread_1'', active_run_id = None,
                  emitted_cot_set = Some {''cot_summary: analyzing sources''},
                  emitted_url_lines = Some {}\<rparr>,
      events = []\<rparr>"

definition restarted_world :: dr_world where
  "restarted_world = snd (start_run (Inr sample_run) ''thread_1'' ''agent_1'' ended_world)"

definition restarted_poll_state :: poll_state where
  "restarted_poll_state = \<lparr>world = restarted_world, cot_local = {}, url_local = {}\<rparr>"

declare dec_of_nat.simps [simp del]

text \<open>
  A value that is not a non-empty string: what the handlers of the text deltas test with
  \<^verbatim>\<open>isinstance(delta, str) and delta\<close>.
\<close>

definition no_text :: "pyval \<Rightarrow> bool" where
  "no_text v = (case v of PStr d \<Rightarrow> d = [] | _ \<Rightarrow> True)"

text \<open>
  The other coroutines of the session leave the key \<open>k\<close> of the store alone.
\<close>

definition keeps :: "env \<Rightarrow> key \<Rightarrow> bool" where
  "keeps e k = (\<forall>n s. interleave e n s k = s k)"

text \<open>
  An environment for the examples.  Nothing raises and no other coroutine writes to the store.
  \<open>sample_loads\<close> is \<^verbatim>\<open>json.loads\<close> on the argument strings that the examples use: the two JSON
  objects, and the empty string, on which \<^verbatim>\<open>json.loads\<close> raises
  \<^verbatim>\<open>JSONDecodeError("Expecting value: line 1 column 1 (char 0)")\<close>; it is not meant to be read at
  another string.  \<open>sample_b64decode\<close> decodes the one string \<^verbatim>\<open>AAAA\<close>.  \<open>sample_tool\<close> is a tool that
  reads its first argument as a string: it returns a dictionary for a string and raises the
  \<^verbatim>\<open>AttributeError\<close> of \<^verbatim>\<open>location.replace\<close> for a number.
\<close>

definition sample_loads :: "string \<Rightarrow> string + json" where
  "sample_loads s =
     (if s = ''{\"location\":\"Tokyo\"}'' then Inr (JObj [(''location'', JStr ''Tokyo'')])
      else if s = ''{\"location\": 5}'' then Inr (JObj [(''location'', JInt 5)])
      else if s = ''{}'' then Inr (JObj [])
      else Inl ''Expecting value: line 1 column 1 (char 0)'')"

definition sample_b64decode :: "string \<Rightarrow> string + string" where
  "sample_b64decode s = (if s = ''AAAA'' then Inr [CHR 0x00, CHR 0x00, CHR 0x00] else Inl ''Incorrect padding'')"

definition sample_tool :: "json \<Rightarrow> json \<Rightarrow> string + json" where
  "sample_tool x y =
     (case x of
        JStr s \<Rightarrow> Inr (JObj [(''location'', JStr s), (''temperature'', JStr ''24'')])
      | _ \<Rightarrow> Inl ([CHR 0x27] @ type_name x @ [CHR 0x27] @ '' object has no attribute ''
                  @ [CHR 0x27] @ ''replace'' @ [CHR 0x27]))"

definition quiet_env :: env where
  "quiet_env =
     \<lparr>uuid4 = (\<lambda>n. ''uuid-'' @ replicate n (CHR ''i'')), fault = (\<lambda>n. None), interleave = (\<lambda>n s. s),
      loads = sample_loads, b64decode = sample_b64decode,
      get_weather = sample_tool, search_database = sample_tool, task_done = False\<rparr>"

text \<open>
  A session after \<^verbatim>\<open>on_chat_start\<close> and \<^verbatim>\<open>on_audio_start\<close>: the defaults are set and the
  connection is open.  The same session with the text stream locked and the agent's bubble
  open, as it is after a text delta.
\<close>

definition connected_store :: "key \<Rightarrow> pyval" where
  "connected_store =
     (\<lambda>k. PNone)
       (KIsGenerating := PBool False, KIsPlaying := PBool False, KTrackId := PStr ''uuid-'',
        KTextStreamLocked := PBool False, KPendingFunctionCalls := PCalls [],
        KCm := PObj 0, KConn := PObj 1, KRecvTask := PObj 2)"

definition connected_world :: rt_world where
  "connected_world = \<lparr>store = connected_store, trace = [], fresh = 3, drawn = 1, awaited = 2\<rparr>"

text \<open>
  An event of a given type with a given \<^verbatim>\<open>delta\<close> and no other attribute.
\<close>

definition delta_event :: "string \<Rightarrow> pyval option \<Rightarrow> event" where
  "delta_event t d =
     \<lparr>ev_type = t, ev_delta = d, ev_transcript = None, ev_call_id = None, ev_name = None,
      ev_arguments = [], ev_item_id = None\<rparr>"

definition locked_world :: rt_world where
  "locked_world = snd (handle_agent_text_delta (PStr ''Hi'') quiet_env connected_world)"

text \<open>
  \<^verbatim>\<open>args.get(k, default)\<close> on a dictionary.
\<close>

definition lookup_or :: "(string \<times> json) list \<Rightarrow> string \<Rightarrow> json \<Rightarrow> json" where
  "lookup_or kvs k dflt = (case map_of kvs k of None \<Rightarrow> dflt | Some v \<Rightarrow> v)"




text \<open>
  A session in which the agent is answering: a response is being generated, audio is playing,
  and the agent's bubble is open.  The session of \<open>connected_world\<close> after a first message and
  then \<^verbatim>\<open>on_stop\<close>, whose handler is \<^verbatim>\<open>on_chat_end\<close>.
\<close>

definition answering_world :: rt_world where
  "answering_world =
     \<lparr>store = connected_store
                (KIsGenerating := PBool True, KIsPlaying := PBool True,
                 KTextStreamLocked := PBool True, KCurrentResponseMsg := PObj 3),
      trace = [], fresh = 4, drawn = 1, awaited = 6\<rparr>"

definition stopped_world :: rt_world where
  "stopped_world =
     snd (on_chat_end quiet_env (snd (rt_on_message RealtimeAgent ''first'' quiet_env connected_world)))"

text \<open>
  The argument buffer that the store holds for a call identifier (empty when there is no
  entry), the fragment that an argument-delta event carries, the fragments of the
  argument-delta events of a list for one call identifier, and the tasks created in a trace.
\<close>

definition buffer :: "(key \<Rightarrow> pyval) \<Rightarrow> string \<Rightarrow> string" where
  "buffer s c =
     (case s KPendingFunctionCalls of
        PCalls kvs \<Rightarrow> (case map_of kvs c of None \<Rightarrow> [] | Some pc \<Rightarrow> pc_arguments pc)
      | _ \<Rightarrow> [])"



definition task_of :: "rt_event \<Rightarrow> task list" where
  "task_of ev = (case ev of CreateTask n t \<Rightarrow> [t] | _ \<Rightarrow> [])"

definition tasks_of :: "rt_event list \<Rightarrow> task list" where
  "tasks_of evs = concat (map task_of evs)"

definition trace_since :: "rt_world \<Rightarrow> rt_world \<Rightarrow> rt_event list" where
  "trace_since w w' = drop (length (trace w)) (trace w')"






text \<open>
  In the trace of a tool task: a result added to the conversation, and a response requested.
\<close>

definition is_feed :: "rt_event \<Rightarrow> bool" where
  "is_feed ev = (case ev of Await (ConversationItemCreate c (FunctionCallOutput i out)) \<Rightarrow> True | _ \<Rightarrow> False)"

definition is_request :: "rt_event \<Rightarrow> bool" where
  "is_request ev = (case ev of Await (ResponseCreate c opts) \<Rightarrow> True | _ \<Rightarrow> False)"

text \<open>
  The single-flight discipline on a trace.  After a result is added to the conversation, the
  call has raised, or the next event is the read of \<^verbatim>\<open>is_generating\<close>: when the value read is
  true, the trace ends there; when it is false, the next two events are the write of
  \<^verbatim>\<open>is_generating = True\<close> and the request of a response.  No response is requested anywhere
  else.
\<close>

fun single_flight :: "rt_event list \<Rightarrow> bool" where
  "single_flight [] = True"
| "single_flight (ev # rest) =
     (if is_feed ev
      then (case rest of
              [] \<Rightarrow> False
            | ev1 # rest1 \<Rightarrow>
                (case ev1 of
                   Raised m \<Rightarrow> single_flight rest1
                 | Get k g \<Rightarrow>
                     k = KIsGenerating \<and>
                     (if truthy g then rest1 = []
                      else (case rest1 of
                              ev2 # ev3 # rest3 \<Rightarrow>
                                ev2 = Set KIsGenerating (PBool True) \<and> is_request ev3 \<and> single_flight rest3
                            | _ \<Rightarrow> False))
                 | _ \<Rightarrow> False))
      else \<not> is_request ev \<and> single_flight rest)"

text \<open>
  Three things said of a coroutine body started in a world: the events it adds hold no added
  result and no request; the events it adds keep the discipline; and they keep it also when
  the body raises and an exception handler that keeps it runs next.
\<close>

definition silently :: "'a action \<Rightarrow> env \<Rightarrow> rt_world \<Rightarrow> bool" where
  "silently m e w =
     (\<exists>r t w'. m e w = (r, w') \<and> trace w' = trace w @ t
        \<and> (\<forall>ev \<in> set t. \<not> is_feed ev \<and> \<not> is_request ev))"

definition flight :: "'a action \<Rightarrow> env \<Rightarrow> rt_world \<Rightarrow> bool" where
  "flight m e w = (\<exists>r t w'. m e w = (r, w') \<and> trace w' = trace w @ t \<and> single_flight t)"

definition safely :: "'a action \<Rightarrow> env \<Rightarrow> rt_world \<Rightarrow> bool" where
  "safely m e w =
     (\<exists>r t w'. m e w = (r, w') \<and> trace w' = trace w @ t \<and> single_flight t
        \<and> (\<forall>x. r = Inl x \<longrightarrow> (\<forall>th. single_flight th \<longrightarrow> single_flight (t @ th))))"


chapter \<open>Properties\<close>

section \<open>The reference list\<close>










section \<open>One active run\<close>

lemma start_run_active:
  "is_run_active w \<Longrightarrow> start_run created tid aid w = (Inl (RuntimeError ''A run is already active in this session.''), w)"
  by (simp add: start_run_def)

lemma start_run_marks_active:
  "start_run created tid aid w = (Inr r, w1) \<Longrightarrow> is_run_active w1"
  by (auto simp: start_run_def is_run_active_def set_active_run_def emit_def Let_def split: if_splits sum.splits)

lemma on_message_no_second_run:
  assumes "is_run_active w"
  shows "\<exists>new. events (snd (on_message inp w)) = events w @ new \<and> (\<forall>t a. Vendor (RunsCreate t a) \<notin> set new)"
  using assms
  by (auto simp: on_message_def Let_def get_or_create_thread_id_def emit_def end_run_def set_active_run_def is_run_active_def
      split: option.splits sum.splits prod.splits if_splits)

text \<open>
  C1.  When a run is active (\<^verbatim>\<open>active_run_id\<close> is not \<open>None\<close>), \<^verbatim>\<open>_start_run\<close> raises the
  \<^verbatim>\<open>RuntimeError\<close> "A run is already active in this session." before it calls
  \<^verbatim>\<open>runs.create\<close>, and leaves the session and the trace as they are.  A successful
  \<^verbatim>\<open>_start_run\<close> stores the identifier of its run, so a second \<^verbatim>\<open>_start_run\<close> with no \<^verbatim>\<open>_end_run\<close>
  in between fails in this way.  A call of \<^verbatim>\<open>on_message\<close> that finds a run active never calls
  \<^verbatim>\<open>runs.create\<close>; when the session has its thread it sends the two panels and the notice that
  another research is in progress, and returns.  The session holds one run identifier at most.
\<close>

theorem single_active_run:
  "(is_run_active w \<longrightarrow>
      start_run created tid aid w = (Inl (RuntimeError ''A run is already active in this session.''), w))
   \<and> (start_run created tid aid w = (Inr r, w1) \<longrightarrow>
      active_run_id (session w1) = Some (run_id r)
      \<and> start_run created' tid' aid' w1 = (Inl (RuntimeError ''A run is already active in this session.''), w1))
   \<and> (is_run_active w \<longrightarrow>
      (\<exists>new. events (snd (on_message inp w)) = events w @ new \<and> (\<forall>t a. Vendor (RunsCreate t a) \<notin> set new)))
   \<and> (is_run_active w \<and> thread_id (session w) = Some t \<and> t \<noteq> [] \<and> py_strip (content inp) \<noteq> []
       \<and> project_endpoint inp \<noteq> [] \<and> agent_id inp \<noteq> [] \<and> clients_failed inp = None \<longrightarrow>
      on_message inp w
        = (Returned, emit (SendMessage AnotherInProgress) (emit (SendMessage ResultsPanel) (emit (SendMessage StatusPanel) w))))"
proof (intro conjI impI)
  assume "is_run_active w"
  then show "start_run created tid aid w = (Inl (RuntimeError ''A run is already active in this session.''), w)"
    by (rule start_run_active)
next
  assume s: "start_run created tid aid w = (Inr r, w1)"
  then show "active_run_id (session w1) = Some (run_id r)"
    by (auto simp: start_run_def set_active_run_def emit_def Let_def split: if_splits sum.splits)
  from s have "is_run_active w1" by (rule start_run_marks_active)
  then show "start_run created' tid' aid' w1 = (Inl (RuntimeError ''A run is already active in this session.''), w1)"
    by (rule start_run_active)
next
  assume "is_run_active w"
  then show "\<exists>new. events (snd (on_message inp w)) = events w @ new \<and> (\<forall>t a. Vendor (RunsCreate t a) \<notin> set new)"
    by (rule on_message_no_second_run)
next
  assume "is_run_active w \<and> thread_id (session w) = Some t \<and> t \<noteq> [] \<and> py_strip (content inp) \<noteq> []
       \<and> project_endpoint inp \<noteq> [] \<and> agent_id inp \<noteq> [] \<and> clients_failed inp = None"
  then show "on_message inp w
        = (Returned, emit (SendMessage AnotherInProgress) (emit (SendMessage ResultsPanel) (emit (SendMessage StatusPanel) w)))"
    by (simp add: on_message_def Let_def get_or_create_thread_id_def emit_def is_run_active_def)
qed




lemma strip_sample: "py_strip '' compare two vendors '' = ''compare two vendors''"
  by (simp add: py_strip_def py_isspace_def)

lemma polling_world_eq:
  "on_message sample_input fresh_dr_world =
     (Polling,
      \<lparr>session = \<lparr>thread_id = Some ''thread_1'', active_run_id = Some ''run_1'',
                   emitted_cot_set = Some {}, emitted_url_lines = Some {}\<rparr>,
       events = [SendMessage StatusPanel, SendMessage ResultsPanel, Vendor ThreadsCreate,
                 Vendor (MessagesCreate ''thread_1'' ''user'' ''compare two vendors''),
                 Vendor (RunsCreate ''thread_1'' ''agent_1'')]\<rparr>)"
  by (simp add: on_message_def sample_input_def fresh_dr_world_def strip_sample Let_def
      get_or_create_thread_id_def emit_def is_run_active_def start_run_def set_active_run_def
      sample_run_def poll_run_and_show_progress_def or_empty_def)

theorem single_active_run_witness:
  "is_run_active polling_world
   \<and> start_run (Inr sample_run) ''thread_1'' ''agent_1'' polling_world
       = (Inl (RuntimeError ''A run is already active in this session.''), polling_world)
   \<and> start_run (Inr sample_run) ''thread_1'' ''agent_1'' fresh_dr_world
       = (Inr sample_run, snd (start_run (Inr sample_run) ''thread_1'' ''agent_1'' fresh_dr_world))
   \<and> start_run (Inr sample_run) ''thread_1'' ''agent_1''
         (snd (start_run (Inr sample_run) ''thread_1'' ''agent_1'' fresh_dr_world))
       = (Inl (RuntimeError ''A run is already active in this session.''),
          snd (start_run (Inr sample_run) ''thread_1'' ''agent_1'' fresh_dr_world))
   \<and> on_message sample_input polling_world
       = (Returned, emit (SendMessage AnotherInProgress)
                      (emit (SendMessage ResultsPanel) (emit (SendMessage StatusPanel) polling_world)))
   \<and> events (snd (on_message sample_input polling_world))
       = events polling_world @ [SendMessage StatusPanel, SendMessage ResultsPanel, SendMessage AnotherInProgress]"
proof -
  have pw: "polling_world =
      \<lparr>session = \<lparr>thread_id = Some ''thread_1'', active_run_id = Some ''run_1'',
                   emitted_cot_set = Some {}, emitted_url_lines = Some {}\<rparr>,
       events = [SendMessage StatusPanel, SendMessage ResultsPanel, Vendor ThreadsCreate,
                 Vendor (MessagesCreate ''thread_1'' ''user'' ''compare two vendors''),
                 Vendor (RunsCreate ''thread_1'' ''agent_1'')]\<rparr>"
    by (simp add: polling_world_def polling_world_eq)
  have active: "is_run_active polling_world"
    by (simp add: pw is_run_active_def)
  have first: "start_run (Inr sample_run) ''thread_1'' ''agent_1'' fresh_dr_world
       = (Inr sample_run, snd (start_run (Inr sample_run) ''thread_1'' ''agent_1'' fresh_dr_world))"
    by (simp add: start_run_def fresh_dr_world_def is_run_active_def Let_def)
  have pre: "is_run_active polling_world \<and> thread_id (session polling_world) = Some ''thread_1''
       \<and> ''thread_1'' \<noteq> [] \<and> py_strip (content sample_input) \<noteq> []
       \<and> project_endpoint sample_input \<noteq> [] \<and> agent_id sample_input \<noteq> []
       \<and> clients_failed sample_input = None"
    using active by (simp add: pw sample_input_def strip_sample)
  note inst1 = single_active_run[of polling_world "Inr sample_run" "''thread_1''" "''agent_1''"
      sample_run polling_world "Inr sample_run" "''thread_1''" "''agent_1''" sample_input "''thread_1''"]
  note inst2 = single_active_run[of fresh_dr_world "Inr sample_run" "''thread_1''" "''agent_1''"
      sample_run "snd (start_run (Inr sample_run) ''thread_1'' ''agent_1'' fresh_dr_world)"
      "Inr sample_run" "''thread_1''" "''agent_1''" sample_input "''thread_1''"]
  have a: "start_run (Inr sample_run) ''thread_1'' ''agent_1'' polling_world
       = (Inl (RuntimeError ''A run is already active in this session.''), polling_world)"
    using inst1 active by blast
  have b: "start_run (Inr sample_run) ''thread_1'' ''agent_1''
         (snd (start_run (Inr sample_run) ''thread_1'' ''agent_1'' fresh_dr_world))
       = (Inl (RuntimeError ''A run is already active in this session.''),
          snd (start_run (Inr sample_run) ''thread_1'' ''agent_1'' fresh_dr_world))"
    using inst2 first by blast
  have c: "on_message sample_input polling_world
       = (Returned, emit (SendMessage AnotherInProgress)
                      (emit (SendMessage ResultsPanel) (emit (SendMessage StatusPanel) polling_world)))"
    using inst1 pre by blast
  have d: "events (snd (on_message sample_input polling_world))
       = events polling_world @ [SendMessage StatusPanel, SendMessage ResultsPanel, SendMessage AnotherInProgress]"
    unfolding c by (simp add: emit_def)
  show ?thesis using active a first b c d by blast
qed

section \<open>Progress is shown once\<close>

lemma cot_blocks_simps [simp]:
  "cot_blocks [] = []"
  "cot_blocks (xs @ ys) = cot_blocks xs @ cot_blocks ys"
  "cot_blocks (StatusToken (CotSummary b) # xs) = b # cot_blocks xs"
  "cot_blocks (StatusToken (UrlCitationLine c) # xs) = cot_blocks xs"
  "cot_blocks (Vendor v # xs) = cot_blocks xs"
  "cot_blocks (Sleep d # xs) = cot_blocks xs"
  "cot_blocks (StatusToken TimeoutExceeded # xs) = cot_blocks xs"
  "cot_blocks (StatusToken RunFailed # xs) = cot_blocks xs"
  "cot_blocks (StatusToken (ErrorDetail m) # xs) = cot_blocks xs"
  "cot_blocks (StatusToken (ErrorGettingStatus m) # xs) = cot_blocks xs"
  "cot_blocks (StatusToken (UnexpectedError m) # xs) = cot_blocks xs"
  by (simp_all add: cot_blocks_def cot_of_def)

lemma citation_lines_simps [simp]:
  "citation_lines [] = []"
  "citation_lines (xs @ ys) = citation_lines xs @ citation_lines ys"
  "citation_lines (StatusToken (UrlCitationLine c) # xs) = c # citation_lines xs"
  "citation_lines (StatusToken (CotSummary b) # xs) = citation_lines xs"
  "citation_lines (Vendor v # xs) = citation_lines xs"
  "citation_lines (Sleep d # xs) = citation_lines xs"
  "citation_lines (StatusToken TimeoutExceeded # xs) = citation_lines xs"
  "citation_lines (StatusToken RunFailed # xs) = citation_lines xs"
  "citation_lines (StatusToken (ErrorDetail m) # xs) = citation_lines xs"
  "citation_lines (StatusToken (ErrorGettingStatus m) # xs) = citation_lines xs"
  "citation_lines (StatusToken (UnexpectedError m) # xs) = citation_lines xs"
  by (simp_all add: citation_lines_def citation_of_def)

lemma grows_refl: "grows st st"
  unfolding grows_def by (rule exI[of _ "[]"]) simp

lemma grows_trans:
  assumes "grows st1 st2" and "grows st2 st3"
  shows "grows st1 st3"
proof -
  from assms(1) obtain n1 where n1:
    "events (world st2) = events (world st1) @ n1"
    "distinct (cot_blocks n1)" "set (cot_blocks n1) \<inter> cot_local st1 = {}"
    "cot_local st2 = cot_local st1 \<union> set (cot_blocks n1)"
    "distinct (citation_lines n1)" "set (citation_lines n1) \<inter> url_local st1 = {}"
    "url_local st2 = url_local st1 \<union> set (citation_lines n1)"
    "stored_cot st1 \<subseteq> cot_local st1 \<longrightarrow> stored_cot st1 \<subseteq> stored_cot st2 \<and> stored_cot st2 \<subseteq> cot_local st2"
    "stored_url st1 \<subseteq> url_local st1 \<longrightarrow> stored_url st1 \<subseteq> stored_url st2 \<and> stored_url st2 \<subseteq> url_local st2"
    unfolding grows_def by blast
  from assms(2) obtain n2 where n2:
    "events (world st3) = events (world st2) @ n2"
    "distinct (cot_blocks n2)" "set (cot_blocks n2) \<inter> cot_local st2 = {}"
    "cot_local st3 = cot_local st2 \<union> set (cot_blocks n2)"
    "distinct (citation_lines n2)" "set (citation_lines n2) \<inter> url_local st2 = {}"
    "url_local st3 = url_local st2 \<union> set (citation_lines n2)"
    "stored_cot st2 \<subseteq> cot_local st2 \<longrightarrow> stored_cot st2 \<subseteq> stored_cot st3 \<and> stored_cot st3 \<subseteq> cot_local st3"
    "stored_url st2 \<subseteq> url_local st2 \<longrightarrow> stored_url st2 \<subseteq> stored_url st3 \<and> stored_url st3 \<subseteq> url_local st3"
    unfolding grows_def by blast
  show ?thesis
    unfolding grows_def
  proof (rule exI[of _ "n1 @ n2"], intro conjI)
    show "events (world st3) = events (world st1) @ n1 @ n2" using n1(1) n2(1) by simp
    show "distinct (cot_blocks (n1 @ n2))" using n1(2,4) n2(2,3) by auto
    show "set (cot_blocks (n1 @ n2)) \<inter> cot_local st1 = {}" using n1(3,4) n2(3) by auto
    show "cot_local st3 = cot_local st1 \<union> set (cot_blocks (n1 @ n2))" using n1(4) n2(4) by auto
    show "distinct (citation_lines (n1 @ n2))" using n1(5,7) n2(5,6) by auto
    show "set (citation_lines (n1 @ n2)) \<inter> url_local st1 = {}" using n1(6,7) n2(6) by auto
    show "url_local st3 = url_local st1 \<union> set (citation_lines (n1 @ n2))" using n1(7) n2(7) by auto
    show "stored_cot st1 \<subseteq> cot_local st1 \<longrightarrow> stored_cot st1 \<subseteq> stored_cot st3 \<and> stored_cot st3 \<subseteq> cot_local st3"
      using n1(8) n2(8) by blast
    show "stored_url st1 \<subseteq> url_local st1 \<longrightarrow> stored_url st1 \<subseteq> stored_url st3 \<and> stored_url st3 \<subseteq> url_local st3"
      using n1(9) n2(9) by blast
  qed
qed

lemma grows_say:
  "cot_of ev = [] \<Longrightarrow> citation_of ev = [] \<Longrightarrow> grows st (say ev st)"
  unfolding grows_def
  by (rule exI[of _ "[ev]"])
     (simp add: say_def emit_def cot_blocks_def citation_lines_def stored_cot_def stored_url_def)

lemma grows_show_cot: "grows st (show_cot cfg text st)"
proof (cases "cot_search cfg text")
  case None
  then show ?thesis by (simp add: show_cot_def grows_refl)
next
  case (Some g)
  show ?thesis
  proof (cases "py_strip g \<noteq> [] \<and> ''cot_summary: '' @ py_strip g \<notin> cot_local st")
    case False
    then show ?thesis using Some by (auto simp: show_cot_def Let_def grows_refl)
  next
    case True
    then show ?thesis
      using Some unfolding grows_def
      by (intro exI[of _ "[StatusToken (CotSummary (''cot_summary: '' @ py_strip g))]"])
         (auto simp: show_cot_def Let_def say_def emit_def store_cot_set_def stored_cot_def
           stored_url_def or_empty_def)
  qed
qed

lemma grows_show_citations: "grows st (show_citations anns st)"
proof (induction anns arbitrary: st)
  case Nil
  then show ?case by (simp add: grows_refl)
next
  case (Cons ann anns)
  let ?c = "''['' @ display_title ann @ '']('' @ url ann @ '')''"
  show ?case
  proof (cases "?c \<in> url_local st")
    case True
    then show ?thesis using Cons.IH[of st] by (simp add: Let_def)
  next
    case False
    let ?st1 = "(say (StatusToken (UrlCitationLine ?c)) st)\<lparr>url_local := insert ?c (url_local st)\<rparr>"
    have "grows st ?st1"
      using False unfolding grows_def
      by (intro exI[of _ "[StatusToken (UrlCitationLine ?c)]"])
         (auto simp: say_def emit_def stored_cot_def stored_url_def)
    moreover have "grows ?st1 (show_citations anns ?st1)" by (rule Cons.IH)
    ultimately have "grows st (show_citations anns ?st1)" by (rule grows_trans)
    then show ?thesis using False by (simp add: Let_def)
  qed
qed

lemma grows_store_url_lines: "grows st (store_url_lines st)"
  unfolding grows_def
  by (rule exI[of _ "[]"]) (auto simp: store_url_lines_def stored_cot_def stored_url_def or_empty_def)

lemma grows_show_progress: "grows st (show_progress cfg fetched st)"
proof -
  let ?st1 = "say (Vendor (MessagesGetLast (poll_thread cfg))) st"
  have g1: "grows st ?st1" by (rule grows_say) (simp_all add: cot_of_def citation_of_def)
  show ?thesis
  proof (cases fetched)
    case (Inl e)
    then show ?thesis using g1 by (simp add: show_progress_def Let_def)
  next
    case (Inr mo)
    show ?thesis
    proof (cases mo)
      case None
      then show ?thesis using g1 Inr by (simp add: show_progress_def Let_def)
    next
      case (Some m)
      let ?text = "py_join ''\<newline>\<newline>'' (map py_strip (text_messages m))"
      let ?st2 = "show_cot cfg ?text ?st1"
      have g2: "grows st ?st2" using g1 grows_show_cot by (rule grows_trans)
      have g3: "grows st (store_url_lines (show_citations (url_citation_annotations m) ?st2))"
        using grows_trans[OF g2 grows_show_citations] grows_store_url_lines by (rule grows_trans)
      show ?thesis
        using Inr Some g1 g2 g3 by (simp add: show_progress_def Let_def)
    qed
  qed
qed

lemma grows_poll_loop: "grows st (snd (poll_loop cfg t0 obs st))"
proof (induction obs arbitrary: st)
  case Nil
  then show ?case by (simp add: grows_refl)
next
  case (Cons ob obs)
  have quiet: "\<And>ev s. cot_of ev = [] \<Longrightarrow> citation_of ev = [] \<Longrightarrow> grows st s \<Longrightarrow> grows st (say ev s)"
    using grows_say grows_trans by blast
  have rec: "\<And>s. grows st s \<Longrightarrow> grows st (snd (poll_loop cfg t0 obs s))"
    using Cons.IH grows_trans by blast
  let ?st0 = "say (Vendor (RunsGet (poll_thread cfg) (poll_run cfg))) st"
  have g0: "grows st ?st0" by (rule grows_say) (simp_all add: cot_of_def citation_of_def)
  show ?case
  proof (cases "run_fetched ob")
    case (Inl err)
    then show ?thesis
      using g0 by (cases err) (auto simp: Let_def cot_of_def citation_of_def intro!: quiet rec)
  next
    case (Inr r)
    have gp: "grows st (show_progress cfg (message_fetched ob) ?st0)"
      using g0 grows_show_progress by (rule grows_trans)
    show ?thesis
      using Inr g0 gp
      by (auto simp: Let_def cot_of_def citation_of_def split: option.splits intro!: quiet rec)
  qed
qed


lemma grows_events: "grows st st' \<Longrightarrow> \<exists>new. events (world st') = events (world st) @ new"
  unfolding grows_def by blast

lemma show_cot_emits:
  assumes "cot_search cfg text = Some g" and "py_strip g \<noteq> []"
    and "''cot_summary: '' @ py_strip g \<notin> cot_local st"
  shows "events (world (show_cot cfg text st))
           = events (world st) @ [StatusToken (CotSummary (''cot_summary: '' @ py_strip g))]"
  using assms by (simp add: show_cot_def Let_def say_def emit_def store_cot_set_def)

lemma show_progress_emits:
  assumes "text_messages m \<noteq> []"
    and "cot_search cfg (py_join ''\<newline>\<newline>'' (map py_strip (text_messages m))) = Some g"
    and "py_strip g \<noteq> []" and "''cot_summary: '' @ py_strip g \<notin> cot_local st"
  shows "\<exists>pre post. events (world (show_progress cfg (Inr (Some m)) st))
           = events (world st) @ pre @ [StatusToken (CotSummary (''cot_summary: '' @ py_strip g))] @ post"
proof -
  let ?st1 = "say (Vendor (MessagesGetLast (poll_thread cfg))) st"
  let ?text = "py_join ''\<newline>\<newline>'' (map py_strip (text_messages m))"
  let ?tok = "StatusToken (CotSummary (''cot_summary: '' @ py_strip g))"
  have l: "cot_local ?st1 = cot_local st" by (simp add: say_def)
  have e2: "events (world (show_cot cfg ?text ?st1))
      = events (world st) @ [Vendor (MessagesGetLast (poll_thread cfg))] @ [?tok]"
    using show_cot_emits[OF assms(2,3), of ?st1] assms(4) l by (simp add: say_def emit_def)
  show ?thesis
  proof (cases "url_citation_annotations m = []")
    case True
    then show ?thesis
      using assms(1) e2
      by (intro exI[of _ "[Vendor (MessagesGetLast (poll_thread cfg))]"] exI[of _ "[]"])
         (simp add: show_progress_def Let_def)
  next
    case False
    obtain n where n: "events (world (show_citations (url_citation_annotations m) (show_cot cfg ?text ?st1)))
        = events (world (show_cot cfg ?text ?st1)) @ n"
      using grows_events[OF grows_show_citations] by blast
    show ?thesis
      using False assms(1) e2 n
      by (intro exI[of _ "[Vendor (MessagesGetLast (poll_thread cfg))]"] exI[of _ n])
         (simp add: show_progress_def Let_def store_url_lines_def)
  qed
qed

lemma poll_loop_first_block:
  assumes "run_fetched ob = Inr rn" and "status rn = ''queued'' \<or> status rn = ''in_progress''"
    and "message_fetched ob = Inr (Some m)" and "text_messages m \<noteq> []"
    and "cot_search cfg (py_join ''\<newline>\<newline>'' (map py_strip (text_messages m))) = Some g"
    and "py_strip g \<noteq> []" and "''cot_summary: '' @ py_strip g \<notin> cot_local st"
  shows "\<exists>pre post. events (world (snd (poll_loop cfg t0 (ob # rest) st)))
           = events (world st) @ pre @ [StatusToken (CotSummary (''cot_summary: '' @ py_strip g))] @ post"
proof -
  let ?st0 = "say (Vendor (RunsGet (poll_thread cfg) (poll_run cfg))) st"
  let ?st1 = "show_progress cfg (Inr (Some m)) ?st0"
  let ?tok = "StatusToken (CotSummary (''cot_summary: '' @ py_strip g))"
  have "cot_local ?st0 = cot_local st" by (simp add: say_def)
  then obtain pre post where pp: "events (world ?st1) = events (world ?st0) @ pre @ [?tok] @ post"
    using show_progress_emits[OF assms(4,5,6), of ?st0] assms(7) by auto
  have e0: "events (world ?st0) = events (world st) @ [Vendor (RunsGet (poll_thread cfg) (poll_run cfg))]"
    by (simp add: say_def emit_def)
  show ?thesis
  proof (cases "timed_out cfg t0 ob")
    case True
    then show ?thesis
      using assms(1,2,3) pp e0
      by (intro exI[of _ "Vendor (RunsGet (poll_thread cfg) (poll_run cfg)) # pre"]
                exI[of _ "post @ [StatusToken TimeoutExceeded]"])
         (auto simp: Let_def say_def emit_def)
  next
    case False
    obtain n where n: "events (world (snd (poll_loop cfg t0 rest (say (Sleep (poll_interval cfg)) ?st1))))
        = events (world (say (Sleep (poll_interval cfg)) ?st1)) @ n"
      using grows_events[OF grows_poll_loop] by blast
    show ?thesis
      using False assms(1,2,3) pp e0 n
      by (intro exI[of _ "Vendor (RunsGet (poll_thread cfg) (poll_run cfg)) # pre"]
                exI[of _ "post @ Sleep (poll_interval cfg) # n"])
         (auto simp: Let_def say_def emit_def)
  qed
qed

lemma start_run_resets:
  "start_run created tid aid w0 = (Inr r, w) \<Longrightarrow>
     emitted_cot_set (session w) = Some {} \<and> emitted_url_lines (session w) = Some {}"
  by (auto simp: start_run_def set_active_run_def emit_def Let_def split: if_splits sum.splits)

text \<open>
  C4.  In one call of \<^verbatim>\<open>_poll_run_and_show_progress\<close>, whatever the vendor returns and however
  long the loop runs, the reasoning summaries put on the status panel are pairwise different
  and none of them was in the set that the call started with; the local set of the loop is the
  starting set plus the summaries shown, and the set kept in the session contains the starting
  set: the sets grow and never shrink.  The same holds for the citation lines.  A successful
  \<^verbatim>\<open>_start_run\<close> stores two empty sets, and in the call that follows it a summary that the first
  poll finds is shown, whether or not an earlier run had shown the same text.
\<close>

theorem progress_shown_once:
  "let st = snd (poll_run_and_show_progress cfg t0 obs w); new = emitted_since w (world st) in
     events (world st) = events w @ new
     \<and> distinct (cot_blocks new)
     \<and> set (cot_blocks new) \<inter> or_empty (emitted_cot_set (session w)) = {}
     \<and> cot_local st = or_empty (emitted_cot_set (session w)) \<union> set (cot_blocks new)
     \<and> or_empty (emitted_cot_set (session w)) \<subseteq> or_empty (emitted_cot_set (session (world st)))
     \<and> distinct (citation_lines new)
     \<and> set (citation_lines new) \<inter> or_empty (emitted_url_lines (session w)) = {}
     \<and> url_local st = or_empty (emitted_url_lines (session w)) \<union> set (citation_lines new)
     \<and> or_empty (emitted_url_lines (session w)) \<subseteq> or_empty (emitted_url_lines (session (world st)))
     \<and> (start_run created tid aid w0 = (Inr r, w) \<longrightarrow>
          emitted_cot_set (session w) = Some {} \<and> emitted_url_lines (session w) = Some {}
          \<and> cot_local st = set (cot_blocks new) \<and> url_local st = set (citation_lines new))
     \<and> (start_run created tid aid w0 = (Inr r, w) \<and> obs = ob # rest \<and> run_fetched ob = Inr rn
          \<and> (status rn = ''queued'' \<or> status rn = ''in_progress'')
          \<and> message_fetched ob = Inr (Some m) \<and> text_messages m \<noteq> []
          \<and> cot_search cfg (py_join ''\<newline>\<newline>'' (map py_strip (text_messages m))) = Some g
          \<and> py_strip g \<noteq> [] \<longrightarrow>
          ''cot_summary: '' @ py_strip g \<in> set (cot_blocks new))"
proof -
  let ?init = "\<lparr>world = w, cot_local = or_empty (emitted_cot_set (session w)),
               url_local = or_empty (emitted_url_lines (session w))\<rparr>"
  let ?st = "snd (poll_run_and_show_progress cfg t0 obs w)"
  let ?new = "emitted_since w (world ?st)"
  have st: "?st = snd (poll_loop cfg t0 obs ?init)"
    by (simp add: poll_run_and_show_progress_def)
  have "grows ?init ?st" unfolding st by (rule grows_poll_loop)
  then obtain n where n:
    "events (world ?st) = events w @ n"
    "distinct (cot_blocks n)" "set (cot_blocks n) \<inter> or_empty (emitted_cot_set (session w)) = {}"
    "cot_local ?st = or_empty (emitted_cot_set (session w)) \<union> set (cot_blocks n)"
    "distinct (citation_lines n)" "set (citation_lines n) \<inter> or_empty (emitted_url_lines (session w)) = {}"
    "url_local ?st = or_empty (emitted_url_lines (session w)) \<union> set (citation_lines n)"
    "or_empty (emitted_cot_set (session w)) \<subseteq> stored_cot ?st"
    "or_empty (emitted_url_lines (session w)) \<subseteq> stored_url ?st"
    unfolding grows_def by (auto simp: stored_cot_def stored_url_def)
  have new: "?new = n" using n(1) by (simp add: emitted_since_def)
  have reset: "start_run created tid aid w0 = (Inr r, w) \<longrightarrow>
          emitted_cot_set (session w) = Some {} \<and> emitted_url_lines (session w) = Some {}
          \<and> cot_local ?st = set (cot_blocks n) \<and> url_local ?st = set (citation_lines n)"
    using start_run_resets[of created tid aid w0 r w] n(4,7) by (auto simp: or_empty_def)
  have resume: "start_run created tid aid w0 = (Inr r, w) \<and> obs = ob # rest \<and> run_fetched ob = Inr rn
          \<and> (status rn = ''queued'' \<or> status rn = ''in_progress'')
          \<and> message_fetched ob = Inr (Some m) \<and> text_messages m \<noteq> []
          \<and> cot_search cfg (py_join ''\<newline>\<newline>'' (map py_strip (text_messages m))) = Some g
          \<and> py_strip g \<noteq> [] \<longrightarrow>
          ''cot_summary: '' @ py_strip g \<in> set (cot_blocks n)"
  proof
    assume a: "start_run created tid aid w0 = (Inr r, w) \<and> obs = ob # rest \<and> run_fetched ob = Inr rn
          \<and> (status rn = ''queued'' \<or> status rn = ''in_progress'')
          \<and> message_fetched ob = Inr (Some m) \<and> text_messages m \<noteq> []
          \<and> cot_search cfg (py_join ''\<newline>\<newline>'' (map py_strip (text_messages m))) = Some g
          \<and> py_strip g \<noteq> []"
    then have "cot_local ?init = {}"
      using start_run_resets[of created tid aid w0 r w] by (simp add: or_empty_def)
    then have "''cot_summary: '' @ py_strip g \<notin> cot_local ?init" by simp
    from poll_loop_first_block[of ob rn m cfg g ?init t0 rest, OF _ _ _ _ _ _ this] a
    obtain pre post where "events (world (snd (poll_loop cfg t0 (ob # rest) ?init)))
           = events (world ?init) @ pre @ [StatusToken (CotSummary (''cot_summary: '' @ py_strip g))] @ post"
      by blast
    then have "n = pre @ [StatusToken (CotSummary (''cot_summary: '' @ py_strip g))] @ post"
      using n(1) a st by simp
    then show "''cot_summary: '' @ py_strip g \<in> set (cot_blocks n)" by simp
  qed
  show ?thesis
    unfolding Let_def new
    using n reset resume by (auto simp: stored_cot_def stored_url_def or_empty_def)
qed


lemma restarted_world_eq:
  "start_run (Inr sample_run) ''thread_1'' ''agent_1'' ended_world =
     (Inr sample_run,
      \<lparr>session = \<lparr>thread_id = Some ''thread_1'', active_run_id = Some ''run_1'',
                   emitted_cot_set = Some {}, emitted_url_lines = Some {}\<rparr>,
       events = [Vendor (RunsCreate ''thread_1'' ''agent_1'')]\<rparr>)"
  by (simp add: start_run_def ended_world_def is_run_active_def emit_def set_active_run_def
      sample_run_def Let_def)

lemma strip_progress: "py_strip '' cot_summary: analyzing sources'' = ''cot_summary: analyzing sources''"
  by (simp add: py_strip_def py_isspace_def)

lemma strip_group: "py_strip ''analyzing sources'' = ''analyzing sources''"
  by (simp add: py_strip_def py_isspace_def)

lemma cot_local_say: "cot_local (say ev st) = cot_local st"
  by (simp add: say_def)

lemma cot_local_store: "cot_local (store_cot_set st) = cot_local st"
  by (simp add: store_cot_set_def)

lemma events_say: "events (world (say ev st)) = events (world st) @ [ev]"
  by (simp add: say_def emit_def)

lemma events_store: "events (world (store_cot_set st)) = events (world st)"
  by (simp add: store_cot_set_def)

lemma in_progress_first:
  "cot_local st = {} \<Longrightarrow>
   poll_loop sample_config 0 (in_progress_at t # obs) st
     = (let st1 = store_cot_set
                    ((say (StatusToken (CotSummary ''cot_summary: analyzing sources''))
                        (say (Vendor (MessagesGetLast ''thread_1''))
                           (say (Vendor (RunsGet ''thread_1'' ''run_1'')) st)))
                      \<lparr>cot_local := {''cot_summary: analyzing sources''}\<rparr>)
        in if t > 5 then (True, say (StatusToken TimeoutExceeded) st1)
           else poll_loop sample_config 0 obs (say (Sleep 2) st1))"
  by (simp add: in_progress_at_def sample_config_def progress_message_def show_progress_def
      show_cot_def sample_cot_search_def strip_progress strip_group timed_out_def Let_def say_def)

lemma in_progress_again:
  "cot_local st = {''cot_summary: analyzing sources''} \<Longrightarrow>
   poll_loop sample_config 0 (in_progress_at t # obs) st
     = (let st1 = say (Vendor (MessagesGetLast ''thread_1''))
                    (say (Vendor (RunsGet ''thread_1'' ''run_1'')) st)
        in if t > 5 then (True, say (StatusToken TimeoutExceeded) st1)
           else poll_loop sample_config 0 obs (say (Sleep 2) st1))"
  by (simp add: in_progress_at_def sample_config_def progress_message_def show_progress_def
      show_cot_def sample_cot_search_def strip_progress strip_group timed_out_def Let_def say_def)

lemma completed_step:
  "poll_loop sample_config 0 (completed_at t # obs) st
     = (True, say (Vendor (RunsGet ''thread_1'' ''run_1'')) st)"
  by (simp add: completed_at_def sample_config_def Let_def)

lemma sample_polls_events:
  "events (world (snd (poll_run_and_show_progress sample_config 0 sample_polls restarted_world)))
     = events restarted_world
       @ [Vendor (RunsGet ''thread_1'' ''run_1''), Vendor (MessagesGetLast ''thread_1''),
          StatusToken (CotSummary ''cot_summary: analyzing sources''), Sleep 2,
          Vendor (RunsGet ''thread_1'' ''run_1''), Vendor (MessagesGetLast ''thread_1''), Sleep 2,
          Vendor (RunsGet ''thread_1'' ''run_1'')]"
proof -
  have e: "or_empty (emitted_cot_set (session restarted_world)) = {}"
    by (simp add: restarted_world_def restarted_world_eq or_empty_def)
  show ?thesis
    unfolding sample_polls_def poll_run_and_show_progress_def e
    by (simp add: in_progress_first in_progress_again completed_step cot_local_say cot_local_store
        events_say events_store Let_def del: poll_loop.simps)
qed

theorem progress_shown_once_witness:
  "start_run (Inr sample_run) ''thread_1'' ''agent_1'' ended_world = (Inr sample_run, restarted_world)
   \<and> emitted_cot_set (session ended_world) = Some {''cot_summary: analyzing sources''}
   \<and> emitted_cot_set (session restarted_world) = Some {}
   \<and> cot_blocks (emitted_since restarted_world
        (world (snd (poll_run_and_show_progress sample_config 0 sample_polls restarted_world))))
       = [''cot_summary: analyzing sources'']
   \<and> ''cot_summary: analyzing sources''
       \<in> set (cot_blocks (emitted_since restarted_world
            (world (snd (poll_run_and_show_progress sample_config 0 sample_polls restarted_world)))))"
proof -
  have started: "start_run (Inr sample_run) ''thread_1'' ''agent_1'' ended_world = (Inr sample_run, restarted_world)"
    by (simp add: restarted_world_def restarted_world_eq)
  have hyp: "start_run (Inr sample_run) ''thread_1'' ''agent_1'' ended_world = (Inr sample_run, restarted_world)
      \<and> sample_polls = in_progress_at 0 # [in_progress_at 2, completed_at 4]
      \<and> run_fetched (in_progress_at 0) = Inr \<lparr>run_id = ''run_1'', status = ''in_progress'', last_error = None\<rparr>
      \<and> (status \<lparr>run_id = ''run_1'', status = ''in_progress'', last_error = None\<rparr> = ''queued''
          \<or> status \<lparr>run_id = ''run_1'', status = ''in_progress'', last_error = None\<rparr> = ''in_progress'')
      \<and> message_fetched (in_progress_at 0) = Inr (Some progress_message)
      \<and> text_messages progress_message \<noteq> []
      \<and> cot_search sample_config (py_join ''\<newline>\<newline>'' (map py_strip (text_messages progress_message)))
          = Some ''analyzing sources''
      \<and> py_strip ''analyzing sources'' \<noteq> []"
    using started
    by (simp add: sample_polls_def in_progress_at_def progress_message_def sample_config_def
        sample_cot_search_def strip_progress strip_group)
  have inst: "emitted_cot_set (session restarted_world) = Some {}
      \<and> ''cot_summary: '' @ py_strip ''analyzing sources''
          \<in> set (cot_blocks (emitted_since restarted_world
               (world (snd (poll_run_and_show_progress sample_config 0 sample_polls restarted_world)))))"
    using progress_shown_once[of sample_config 0 sample_polls restarted_world "Inr sample_run"
        "''thread_1''" "''agent_1''" ended_world sample_run "in_progress_at 0"
        "[in_progress_at 2, completed_at 4]"
        "\<lparr>run_id = ''run_1'', status = ''in_progress'', last_error = None\<rparr>"
        progress_message "''analyzing sources''"] hyp
    unfolding Let_def by blast
  have blocks: "cot_blocks (emitted_since restarted_world
        (world (snd (poll_run_and_show_progress sample_config 0 sample_polls restarted_world))))
       = [''cot_summary: analyzing sources'']"
    by (simp add: emitted_since_def sample_polls_events)
  show ?thesis
    using started inst blocks by (simp add: ended_world_def strip_group)
qed

section \<open>The timeout of the polling loop\<close>

lemma adds_refl: "adds P st st"
  unfolding adds_def by (rule exI[of _ "[]"]) simp

lemma adds_trans: "adds P st1 st2 \<Longrightarrow> adds P st2 st3 \<Longrightarrow> adds P st1 st3"
  unfolding adds_def
  by (elim exE conjE, rule_tac x="new @ newa" in exI) auto

lemma adds_say: "P ev \<Longrightarrow> adds P st (say ev st)"
  unfolding adds_def by (rule exI[of _ "[ev]"]) (simp add: say_def emit_def)

lemma adds_show_cot: "adds (calm cfg) st (show_cot cfg text st)"
proof (cases "cot_search cfg text")
  case None
  then show ?thesis by (simp add: show_cot_def adds_refl)
next
  case (Some g)
  show ?thesis
  proof (cases "py_strip g \<noteq> [] \<and> ''cot_summary: '' @ py_strip g \<notin> cot_local st")
    case False
    then show ?thesis using Some by (auto simp: show_cot_def Let_def adds_refl)
  next
    case True
    then show ?thesis
      using Some unfolding adds_def
      by (intro exI[of _ "[StatusToken (CotSummary (''cot_summary: '' @ py_strip g))]"])
         (auto simp: show_cot_def Let_def say_def emit_def store_cot_set_def calm_def)
  qed
qed

lemma adds_show_citations: "adds (calm cfg) st (show_citations anns st)"
proof (induction anns arbitrary: st)
  case Nil
  then show ?case by (simp add: adds_refl)
next
  case (Cons ann anns)
  let ?c = "''['' @ display_title ann @ '']('' @ url ann @ '')''"
  let ?st1 = "(say (StatusToken (UrlCitationLine ?c)) st)\<lparr>url_local := insert ?c (url_local st)\<rparr>"
  have "adds (calm cfg) st ?st1"
    unfolding adds_def
    by (intro exI[of _ "[StatusToken (UrlCitationLine ?c)]"]) (simp add: say_def emit_def calm_def)
  then have "adds (calm cfg) st (show_citations anns ?st1)"
    using Cons.IH[of ?st1] by (rule adds_trans)
  then show ?case using Cons.IH[of st] by (simp add: Let_def)
qed

lemma adds_store_url_lines: "adds P st st' \<Longrightarrow> adds P st (store_url_lines st')"
  unfolding adds_def by (simp add: store_url_lines_def)

lemma adds_show_progress: "adds (calm cfg) st (show_progress cfg fetched st)"
proof -
  let ?st1 = "say (Vendor (MessagesGetLast (poll_thread cfg))) st"
  have g1: "adds (calm cfg) st ?st1" by (rule adds_say) (simp add: calm_def)
  have g2: "\<And>text. adds (calm cfg) st (show_cot cfg text ?st1)"
    using g1 adds_show_cot by (rule adds_trans)
  have g3: "\<And>text anns. adds (calm cfg) st (store_url_lines (show_citations anns (show_cot cfg text ?st1)))"
    using adds_trans[OF g2 adds_show_citations] by (rule adds_store_url_lines)
  show ?thesis
    using g1 g2 g3 by (auto simp: show_progress_def Let_def split: sum.splits option.splits)
qed

lemma poll_step:
  assumes "in_flight ob"
  shows "\<exists>st1. adds (calm cfg) st st1
           \<and> (\<forall>obs. poll_loop cfg t0 (ob # obs) st
                    = (if timed_out cfg t0 ob then (True, say (StatusToken TimeoutExceeded) st1)
                       else poll_loop cfg t0 obs st1))"
proof -
  let ?st0 = "say (Vendor (RunsGet (poll_thread cfg) (poll_run cfg))) st"
  have g0: "adds (calm cfg) st ?st0" by (rule adds_say) (simp add: calm_def)
  have more: "\<And>ev s. calm cfg ev \<Longrightarrow> adds (calm cfg) st s \<Longrightarrow> adds (calm cfg) st (say ev s)"
    using adds_say adds_trans by blast
  show ?thesis
  proof (cases "run_fetched ob")
    case (Inl err)
    show ?thesis
    proof (cases err)
      case (HttpResponseError m)
      let ?st1 = "say (Sleep (poll_interval cfg)) (say (StatusToken (ErrorGettingStatus m)) ?st0)"
      have "adds (calm cfg) st ?st1" by (intro more g0) (simp_all add: calm_def)
      then show ?thesis using Inl HttpResponseError by (intro exI[of _ ?st1]) (simp add: Let_def)
    next
      case (OtherException m)
      let ?st1 = "say (Sleep (poll_interval cfg)) (say (StatusToken (UnexpectedError m)) ?st0)"
      have "adds (calm cfg) st ?st1" by (intro more g0) (simp_all add: calm_def)
      then show ?thesis using Inl OtherException by (intro exI[of _ ?st1]) (simp add: Let_def)
    qed
  next
    case (Inr r)
    let ?st1 = "show_progress cfg (message_fetched ob) ?st0"
    have g1: "adds (calm cfg) st ?st1" using g0 adds_show_progress by (rule adds_trans)
    show ?thesis
    proof (cases "timed_out cfg t0 ob")
      case True
      then show ?thesis using Inr assms g1 by (intro exI[of _ ?st1]) (simp add: Let_def in_flight_def)
    next
      case False
      have "adds (calm cfg) st (say (Sleep (poll_interval cfg)) ?st1)"
        by (intro more g1) (simp add: calm_def)
      then show ?thesis
        using False Inr assms
        by (intro exI[of _ "say (Sleep (poll_interval cfg)) ?st1"]) (simp add: Let_def in_flight_def)
    qed
  qed
qed

lemma poll_until_timeout:
  assumes "\<forall>ob \<in> set pre. in_flight ob \<and> \<not> timed_out cfg t0 ob"
    and "in_flight ob" and "timed_out cfg t0 ob"
  shows "\<exists>st1. adds (calm cfg) st st1
           \<and> (\<forall>rest. poll_loop cfg t0 (pre @ ob # rest) st = (True, say (StatusToken TimeoutExceeded) st1))"
  using assms(1)
proof (induction pre arbitrary: st)
  case Nil
  show ?case using poll_step[OF assms(2), of cfg st t0] assms(3) by auto
next
  case (Cons p pre)
  from Cons.prems have p: "in_flight p" "\<not> timed_out cfg t0 p"
    and rest: "\<forall>ob \<in> set pre. in_flight ob \<and> \<not> timed_out cfg t0 ob" by auto
  obtain st1 where st1: "adds (calm cfg) st st1"
      "\<forall>obs. poll_loop cfg t0 (p # obs) st = poll_loop cfg t0 obs st1"
    using poll_step[OF p(1), of cfg st t0] p(2) by auto
  obtain st2 where st2: "adds (calm cfg) st1 st2"
      "\<forall>rest. poll_loop cfg t0 (pre @ ob # rest) st1 = (True, say (StatusToken TimeoutExceeded) st2)"
    using Cons.IH[OF rest, of st1] by blast
  show ?case
    using adds_trans[OF st1(1) st2(1)] st1(2) st2(2) by (intro exI[of _ st2]) simp
qed

text \<open>
  C7.  Let the run be unfinished at every poll (the fetch fails, or the status is \<^verbatim>\<open>queued\<close> or
  \<^verbatim>\<open>in_progress\<close>), and let the elapsed time at the timeout check exceed \<^verbatim>\<open>timeout_sec\<close> for the first
  time at some poll.  Then the loop ends at that poll, whatever would come after it: it has put
  one timeout notice on the status panel, as its last event, and it has called the vendor only
  to read the run and the last message, so no cancellation is issued.
\<close>

theorem poll_times_out:
  assumes "\<forall>ob \<in> set pre. in_flight ob \<and> \<not> timed_out cfg t0 ob"
    and "in_flight ob" and "timed_out cfg t0 ob"
  shows "let res = poll_loop cfg t0 (pre @ ob # rest) st;
             new = emitted_since (world st) (world (snd res)) in
           fst res = True
         \<and> res = poll_loop cfg t0 (pre @ [ob]) st
         \<and> events (world (snd res)) = events (world st) @ new
         \<and> count_list new (StatusToken TimeoutExceeded) = 1
         \<and> last new = StatusToken TimeoutExceeded
         \<and> (\<forall>c. Vendor c \<in> set new \<longrightarrow>
               c = RunsGet (poll_thread cfg) (poll_run cfg) \<or> c = MessagesGetLast (poll_thread cfg))"
proof -
  obtain st1 where st1: "adds (calm cfg) st st1"
      "\<forall>rest. poll_loop cfg t0 (pre @ ob # rest) st = (True, say (StatusToken TimeoutExceeded) st1)"
    using poll_until_timeout[OF assms] by blast
  from st1(1) obtain n where n: "events (world st1) = events (world st) @ n" "\<forall>ev \<in> set n. calm cfg ev"
    unfolding adds_def by blast
  let ?res = "poll_loop cfg t0 (pre @ ob # rest) st"
  have res: "?res = (True, say (StatusToken TimeoutExceeded) st1)" using st1(2) by blast
  have same: "?res = poll_loop cfg t0 (pre @ [ob]) st" using st1(2) by simp
  have ev: "events (world (snd ?res)) = events (world st) @ n @ [StatusToken TimeoutExceeded]"
    using n(1) by (simp add: res say_def emit_def)
  have new: "emitted_since (world st) (world (snd ?res)) = n @ [StatusToken TimeoutExceeded]"
    by (simp add: emitted_since_def ev)
  have none: "count_list n (StatusToken TimeoutExceeded) = 0"
    using n(2) by (auto simp: count_list_0_iff calm_def)
  have vend: "\<forall>c. Vendor c \<in> set n \<longrightarrow>
               c = RunsGet (poll_thread cfg) (poll_run cfg) \<or> c = MessagesGetLast (poll_thread cfg)"
    using n(2) by (auto simp: calm_def)
  show ?thesis
    unfolding Let_def new using res same ev none vend by auto
qed


lemma stuck_polls_events:
  "events (world (snd (poll_loop sample_config 0 (stuck_polls @ in_progress_at 6 # [in_progress_at 8])
                         restarted_poll_state)))
     = events restarted_world
       @ [Vendor (RunsGet ''thread_1'' ''run_1''), Vendor (MessagesGetLast ''thread_1''),
          StatusToken (CotSummary ''cot_summary: analyzing sources''), Sleep 2,
          Vendor (RunsGet ''thread_1'' ''run_1''), Vendor (MessagesGetLast ''thread_1''), Sleep 2,
          Vendor (RunsGet ''thread_1'' ''run_1''), Vendor (MessagesGetLast ''thread_1''), Sleep 2,
          Vendor (RunsGet ''thread_1'' ''run_1''), Vendor (MessagesGetLast ''thread_1''),
          StatusToken TimeoutExceeded]"
proof -
  have c0: "cot_local restarted_poll_state = {}" and w0: "world restarted_poll_state = restarted_world"
    by (simp_all add: restarted_poll_state_def)
  show ?thesis
    unfolding stuck_polls_def
    by (simp add: in_progress_first in_progress_again c0 w0 cot_local_say cot_local_store
        events_say events_store Let_def del: poll_loop.simps)
qed

theorem poll_times_out_witness:
  "list_all (\<lambda>ob. in_flight ob \<and> \<not> timed_out sample_config 0 ob) stuck_polls
   \<and> in_flight (in_progress_at 6) \<and> timed_out sample_config 0 (in_progress_at 6)
   \<and> fst (poll_loop sample_config 0 (stuck_polls @ in_progress_at 6 # [in_progress_at 8]) restarted_poll_state)
   \<and> count_list (emitted_since restarted_world
        (world (snd (poll_loop sample_config 0 (stuck_polls @ in_progress_at 6 # [in_progress_at 8])
                       restarted_poll_state))))
        (StatusToken TimeoutExceeded) = 1
   \<and> emitted_since restarted_world
        (world (snd (poll_loop sample_config 0 (stuck_polls @ in_progress_at 6 # [in_progress_at 8])
                       restarted_poll_state)))
     = [Vendor (RunsGet ''thread_1'' ''run_1''), Vendor (MessagesGetLast ''thread_1''),
        StatusToken (CotSummary ''cot_summary: analyzing sources''), Sleep 2,
        Vendor (RunsGet ''thread_1'' ''run_1''), Vendor (MessagesGetLast ''thread_1''), Sleep 2,
        Vendor (RunsGet ''thread_1'' ''run_1''), Vendor (MessagesGetLast ''thread_1''), Sleep 2,
        Vendor (RunsGet ''thread_1'' ''run_1''), Vendor (MessagesGetLast ''thread_1''),
        StatusToken TimeoutExceeded]"
proof -
  have h1: "\<forall>ob \<in> set stuck_polls. in_flight ob \<and> \<not> timed_out sample_config 0 ob"
    by (simp add: stuck_polls_def in_progress_at_def in_flight_def timed_out_def sample_config_def)
  have h2: "in_flight (in_progress_at 6)"
    by (simp add: in_progress_at_def in_flight_def)
  have h3: "timed_out sample_config 0 (in_progress_at 6)"
    by (simp add: in_progress_at_def timed_out_def sample_config_def)
  have w: "world restarted_poll_state = restarted_world"
    by (simp add: restarted_poll_state_def)
  have inst: "fst (poll_loop sample_config 0 (stuck_polls @ in_progress_at 6 # [in_progress_at 8]) restarted_poll_state)
      \<and> count_list (emitted_since restarted_world
           (world (snd (poll_loop sample_config 0 (stuck_polls @ in_progress_at 6 # [in_progress_at 8])
                          restarted_poll_state))))
           (StatusToken TimeoutExceeded) = 1"
    using poll_times_out[OF h1 h2 h3, of "[in_progress_at 8]" restarted_poll_state]
    unfolding Let_def w by blast
  have ev: "emitted_since restarted_world
        (world (snd (poll_loop sample_config 0 (stuck_polls @ in_progress_at 6 # [in_progress_at 8])
                       restarted_poll_state)))
     = [Vendor (RunsGet ''thread_1'' ''run_1''), Vendor (MessagesGetLast ''thread_1''),
        StatusToken (CotSummary ''cot_summary: analyzing sources''), Sleep 2,
        Vendor (RunsGet ''thread_1'' ''run_1''), Vendor (MessagesGetLast ''thread_1''), Sleep 2,
        Vendor (RunsGet ''thread_1'' ''run_1''), Vendor (MessagesGetLast ''thread_1''), Sleep 2,
        Vendor (RunsGet ''thread_1'' ''run_1''), Vendor (MessagesGetLast ''thread_1''),
        StatusToken TimeoutExceeded]"
    unfolding emitted_since_def stuck_polls_events by simp
  have h0: "list_all (\<lambda>ob. in_flight ob \<and> \<not> timed_out sample_config 0 ob) stuck_polls"
    using h1 by (simp add: list_all_iff)
  show ?thesis
    using h0 h2 h3 inst ev by blast
qed

section \<open>Text deltas of the realtime flow\<close>

lemmas act_defs =
  ret_def raise_def bind_act_def then_act_def try_except_def session_get_def session_set_def
  await_def log_def suspend_def new_object_def str_uuid4_def create_task_def

text \<open>
  C10.  When the \<^verbatim>\<open>delta\<close> of an agent text delta, of an agent audio-transcript delta or of a user
  transcription delta is absent, is not a string or is the empty string, the dispatcher hands
  the event to its handler and the handler changes nothing: the store, and with it
  \<^verbatim>\<open>text_stream_locked\<close> and the two current messages, is as before, no message object is created,
  no call is awaited.  For the first and the third kind the trace is unchanged too; for the
  audio-transcript delta the trace gains the one read of \<^verbatim>\<open>text_stream_locked\<close>.
\<close>

theorem empty_delta_changes_nothing:
  assumes "no_text (getattr (ev_delta ev) PNone)"
  shows "(ev_type ev = ''response.text.delta'' \<longrightarrow> dispatch a ev e w = (Inr (), w))
       \<and> (ev_type ev = ''conversation.item.input_audio_transcription.delta'' \<longrightarrow>
            dispatch a ev e w = (Inr (), w))
       \<and> (ev_type ev = ''response.audio_transcript.delta'' \<longrightarrow>
            dispatch a ev e w
              = (Inr (), w\<lparr>trace := trace w @ [Get KTextStreamLocked (store w KTextStreamLocked)]\<rparr>))
       \<and> handle_agent_text_delta (getattr (ev_delta ev) PNone) e w = (Inr (), w)
       \<and> handle_user_transcription_delta (getattr (ev_delta ev) PNone) e w = (Inr (), w)
       \<and> handle_agent_audio_transcript_delta (getattr (ev_delta ev) PNone) e w
              = (Inr (), w\<lparr>trace := trace w @ [Get KTextStreamLocked (store w KTextStreamLocked)]\<rparr>)"
proof -
  let ?d = "getattr (ev_delta ev) PNone"
  have t: "handle_agent_text_delta ?d e w = (Inr (), w)"
    using assms by (cases ?d) (simp_all add: handle_agent_text_delta_def no_text_def ret_def)
  have u: "handle_user_transcription_delta ?d e w = (Inr (), w)"
    using assms by (cases ?d) (simp_all add: handle_user_transcription_delta_def no_text_def ret_def)
  have a: "handle_agent_audio_transcript_delta ?d e w
              = (Inr (), w\<lparr>trace := trace w @ [Get KTextStreamLocked (store w KTextStreamLocked)]\<rparr>)"
    using assms
    by (cases ?d) (simp_all add: handle_agent_audio_transcript_delta_def no_text_def act_defs)
  show ?thesis
    using t u a by (simp add: dispatch_def Let_def)
qed


theorem empty_delta_changes_nothing_witness:
  "no_text (getattr (ev_delta (delta_event ''response.text.delta'' None)) PNone)
   \<and> dispatch RealtimeAgent (delta_event ''response.text.delta'' None) quiet_env connected_world
       = (Inr (), connected_world)
   \<and> no_text (getattr (ev_delta (delta_event ''conversation.item.input_audio_transcription.delta''
                                     (Some (PBool True)))) PNone)
   \<and> dispatch RealtimeAgent
        (delta_event ''conversation.item.input_audio_transcription.delta'' (Some (PBool True)))
        quiet_env connected_world
       = (Inr (), connected_world)
   \<and> no_text (getattr (ev_delta (delta_event ''response.audio_transcript.delta'' (Some (PStr [])))) PNone)
   \<and> dispatch RealtimeAgent (delta_event ''response.audio_transcript.delta'' (Some (PStr [])))
        quiet_env connected_world
       = (Inr (), connected_world\<lparr>trace := [Get KTextStreamLocked (PBool False)]\<rparr>)"
proof -
  have h1: "no_text (getattr (ev_delta (delta_event ''response.text.delta'' None)) PNone)"
    by (simp add: delta_event_def getattr_def no_text_def)
  have h2: "no_text (getattr (ev_delta (delta_event ''conversation.item.input_audio_transcription.delta''
                                     (Some (PBool True)))) PNone)"
    by (simp add: delta_event_def getattr_def no_text_def)
  have h3: "no_text (getattr (ev_delta (delta_event ''response.audio_transcript.delta'' (Some (PStr [])))) PNone)"
    by (simp add: delta_event_def getattr_def no_text_def)
  have t1: "ev_type (delta_event ''response.text.delta'' None) = ''response.text.delta''"
    and t2: "ev_type (delta_event ''conversation.item.input_audio_transcription.delta'' (Some (PBool True)))
              = ''conversation.item.input_audio_transcription.delta''"
    and t3: "ev_type (delta_event ''response.audio_transcript.delta'' (Some (PStr [])))
              = ''response.audio_transcript.delta''"
    by (simp_all add: delta_event_def)
  have r1: "dispatch RealtimeAgent (delta_event ''response.text.delta'' None) quiet_env connected_world
       = (Inr (), connected_world)"
    using empty_delta_changes_nothing[OF h1, of RealtimeAgent quiet_env connected_world] t1 by blast
  have r2: "dispatch RealtimeAgent
        (delta_event ''conversation.item.input_audio_transcription.delta'' (Some (PBool True)))
        quiet_env connected_world = (Inr (), connected_world)"
    using empty_delta_changes_nothing[OF h2, of RealtimeAgent quiet_env connected_world] t2 by blast
  have r3: "dispatch RealtimeAgent (delta_event ''response.audio_transcript.delta'' (Some (PStr [])))
        quiet_env connected_world
       = (Inr (), connected_world\<lparr>trace := trace connected_world
             @ [Get KTextStreamLocked (store connected_world KTextStreamLocked)]\<rparr>)"
    using empty_delta_changes_nothing[OF h3, of RealtimeAgent quiet_env connected_world] t3 by blast
  have c: "trace connected_world = []" "store connected_world KTextStreamLocked = PBool False"
    by (simp_all add: connected_world_def connected_store_def)
  show ?thesis
    using h1 h2 h3 r1 r2 r3 unfolding c by simp
qed

lemma transcript_when_locked:
  "truthy (store w KTextStreamLocked) \<Longrightarrow>
   handle_agent_audio_transcript_delta delta e w
     = (Inr (), w\<lparr>trace := trace w @ [Get KTextStreamLocked (store w KTextStreamLocked)]\<rparr>)"
  by (simp add: handle_agent_audio_transcript_delta_def act_defs)

lemma transcript_when_unlocked:
  "\<not> truthy (store w KTextStreamLocked) \<Longrightarrow> d \<noteq> [] \<Longrightarrow>
   handle_agent_audio_transcript_delta (PStr d) e w
     = stream_agent_text d e (w\<lparr>trace := trace w @ [Get KTextStreamLocked (store w KTextStreamLocked)]\<rparr>)"
  by (simp add: handle_agent_audio_transcript_delta_def act_defs)

lemma stream_agent_text_keeps:
  assumes "keeps e k" and "k \<noteq> KCurrentResponseMsg"
  shows "store (snd (stream_agent_text d e w)) k = store w k"
  using assms
  by (auto simp: stream_agent_text_def act_defs keeps_def split: option.splits)

lemma stream_agent_text_appends:
  assumes "fault e (awaited w) = None"
  shows "\<exists>m. Await (StreamToken m d) \<in> set (trace (snd (stream_agent_text d e w)))"
  using assms
  by (auto simp: stream_agent_text_def act_defs split: option.splits)

lemma text_delta_sets_lock_first:
  assumes "d \<noteq> []"
  shows "\<exists>rest. trace (snd (handle_agent_text_delta (PStr d) e w))
                  = trace w @ Set KTextStreamLocked (PBool True) # rest"
  using assms
  by (auto simp: handle_agent_text_delta_def stream_agent_text_def act_defs split: option.splits)

lemma text_delta_locks:
  assumes "d \<noteq> []" and "keeps e KTextStreamLocked"
  shows "store (snd (handle_agent_text_delta (PStr d) e w)) KTextStreamLocked = PBool True"
proof -
  let ?w1 = "w\<lparr>trace := trace w @ [Set KTextStreamLocked (PBool True)],
               store := (store w)(KTextStreamLocked := PBool True)\<rparr>"
  have "handle_agent_text_delta (PStr d) e w = stream_agent_text d e ?w1"
    using assms(1) by (simp add: handle_agent_text_delta_def act_defs)
  then show ?thesis
    using stream_agent_text_keeps[OF assms(2), of d ?w1] by simp
qed

text \<open>
  C8.  The handler of an agent audio-transcript delta reads \<^verbatim>\<open>text_stream_locked\<close> first.  When
  the value is true it does nothing more, so the delta is not appended; when it is false and
  the delta is a non-empty string, it streams the delta to the agent's message, and the
  streaming awaits \<^verbatim>\<open>stream_token\<close> with that delta unless opening the bubble has raised.  The
  handler of a non-empty agent text delta writes \<^verbatim>\<open>text_stream_locked = True\<close> before anything
  else, also before it streams the delta; as no other coroutine writes that key, the key is
  true when the handler ends, whichever call has raised, and a transcript delta handled
  after it is discarded.
\<close>

theorem text_delta_locks_transcript:
  "(truthy (store w KTextStreamLocked) \<longrightarrow>
      handle_agent_audio_transcript_delta delta e w
        = (Inr (), w\<lparr>trace := trace w @ [Get KTextStreamLocked (store w KTextStreamLocked)]\<rparr>))
   \<and> (\<not> truthy (store w KTextStreamLocked) \<and> d \<noteq> [] \<longrightarrow>
      handle_agent_audio_transcript_delta (PStr d) e w
        = stream_agent_text d e
            (w\<lparr>trace := trace w @ [Get KTextStreamLocked (store w KTextStreamLocked)]\<rparr>))
   \<and> (fault e (awaited w) = None \<longrightarrow>
      (\<exists>m. Await (StreamToken m d) \<in> set (trace (snd (stream_agent_text d e w)))))
   \<and> (d \<noteq> [] \<longrightarrow>
      (\<exists>rest. trace (snd (handle_agent_text_delta (PStr d) e w))
                = trace w @ Set KTextStreamLocked (PBool True) # rest))
   \<and> (d \<noteq> [] \<and> keeps e KTextStreamLocked \<longrightarrow>
      store (snd (handle_agent_text_delta (PStr d) e w)) KTextStreamLocked = PBool True
      \<and> handle_agent_audio_transcript_delta delta e (snd (handle_agent_text_delta (PStr d) e w))
          = (Inr (), (snd (handle_agent_text_delta (PStr d) e w))
               \<lparr>trace := trace (snd (handle_agent_text_delta (PStr d) e w))
                           @ [Get KTextStreamLocked (PBool True)]\<rparr>))"
proof (intro conjI impI)
  assume "truthy (store w KTextStreamLocked)"
  then show "handle_agent_audio_transcript_delta delta e w
        = (Inr (), w\<lparr>trace := trace w @ [Get KTextStreamLocked (store w KTextStreamLocked)]\<rparr>)"
    by (rule transcript_when_locked)
next
  assume "\<not> truthy (store w KTextStreamLocked) \<and> d \<noteq> []"
  then show "handle_agent_audio_transcript_delta (PStr d) e w
        = stream_agent_text d e
            (w\<lparr>trace := trace w @ [Get KTextStreamLocked (store w KTextStreamLocked)]\<rparr>)"
    by (simp add: transcript_when_unlocked)
next
  assume "fault e (awaited w) = None"
  then show "\<exists>m. Await (StreamToken m d) \<in> set (trace (snd (stream_agent_text d e w)))"
    by (rule stream_agent_text_appends)
next
  assume "d \<noteq> []"
  then show "\<exists>rest. trace (snd (handle_agent_text_delta (PStr d) e w))
                = trace w @ Set KTextStreamLocked (PBool True) # rest"
    by (rule text_delta_sets_lock_first)
next
  assume a: "d \<noteq> [] \<and> keeps e KTextStreamLocked"
  then show l: "store (snd (handle_agent_text_delta (PStr d) e w)) KTextStreamLocked = PBool True"
    by (simp add: text_delta_locks)
  show "handle_agent_audio_transcript_delta delta e (snd (handle_agent_text_delta (PStr d) e w))
          = (Inr (), (snd (handle_agent_text_delta (PStr d) e w))
               \<lparr>trace := trace (snd (handle_agent_text_delta (PStr d) e w))
                           @ [Get KTextStreamLocked (PBool True)]\<rparr>)"
    using transcript_when_locked[of "snd (handle_agent_text_delta (PStr d) e w)" delta e] l by simp
qed


lemma quiet_env_simps:
  "fault quiet_env n = None" "interleave quiet_env n s = s"
  "uuid4 quiet_env n = ''uuid-'' @ replicate n (CHR ''i'')" "loads quiet_env = sample_loads"
  "get_weather quiet_env = sample_tool" "search_database quiet_env = sample_tool"
  "task_done quiet_env = False" "b64decode quiet_env = sample_b64decode"
  by (simp_all add: quiet_env_def)

lemma connected_world_simps:
  "trace connected_world = []" "fresh connected_world = 3" "drawn connected_world = 1"
  "awaited connected_world = 2"
  "store connected_world KTextStreamLocked = PBool False"
  "store connected_world KCurrentResponseMsg = PNone"
  "store connected_world KCurrentUserMsg = PNone"
  "store connected_world KIsGenerating = PBool False"
  "store connected_world KIsPlaying = PBool False"
  "store connected_world KTrackId = PStr ''uuid-''"
  "store connected_world KConn = PObj 1"
  "store connected_world KPendingFunctionCalls = PCalls []"
  by (simp_all add: connected_world_def connected_store_def)

lemma locked_world_eq:
  "locked_world =
     connected_world
       \<lparr>trace := [Set KTextStreamLocked (PBool True), Get KCurrentResponseMsg PNone,
                  Await (MessageSend 3 AuthorAgent (Text [])), Set KCurrentResponseMsg (PObj 3),
                  Await (StreamToken (PObj 3) ''Hi'')],
        store := (store connected_world)(KTextStreamLocked := PBool True, KCurrentResponseMsg := PObj 3),
        fresh := 4, awaited := 4\<rparr>"
  by (simp add: locked_world_def handle_agent_text_delta_def stream_agent_text_def act_defs
      quiet_env_simps connected_world_simps)

theorem text_delta_locks_transcript_witness:
  "''Hi'' \<noteq> [] \<and> keeps quiet_env KTextStreamLocked
   \<and> trace locked_world
       = [Set KTextStreamLocked (PBool True), Get KCurrentResponseMsg PNone,
          Await (MessageSend 3 AuthorAgent (Text [])), Set KCurrentResponseMsg (PObj 3),
          Await (StreamToken (PObj 3) ''Hi'')]
   \<and> store locked_world KTextStreamLocked = PBool True
   \<and> truthy (store locked_world KTextStreamLocked)
   \<and> handle_agent_audio_transcript_delta (PStr ''Hi'') quiet_env locked_world
       = (Inr (), locked_world\<lparr>trace := trace locked_world @ [Get KTextStreamLocked (PBool True)]\<rparr>)
   \<and> \<not> truthy (store connected_world KTextStreamLocked)
   \<and> fault quiet_env (awaited connected_world) = None
   \<and> trace (snd (handle_agent_audio_transcript_delta (PStr ''Hi'') quiet_env connected_world))
       = [Get KTextStreamLocked (PBool False), Get KCurrentResponseMsg PNone,
          Await (MessageSend 3 AuthorAgent (Text [])), Set KCurrentResponseMsg (PObj 3),
          Await (StreamToken (PObj 3) ''Hi'')]"
proof -
  note inst = text_delta_locks_transcript[of connected_world "PStr ''Hi''" quiet_env "''Hi''"]
  note inst_locked = text_delta_locks_transcript[of locked_world "PStr ''Hi''" quiet_env "''Hi''"]
  have k: "keeps quiet_env KTextStreamLocked" by (simp add: keeps_def quiet_env_simps)
  have l: "store locked_world KTextStreamLocked = PBool True"
    using inst k unfolding locked_world_def by blast
  have after_text: "handle_agent_audio_transcript_delta (PStr ''Hi'') quiet_env locked_world
       = (Inr (), locked_world\<lparr>trace := trace locked_world @ [Get KTextStreamLocked (PBool True)]\<rparr>)"
    using inst k unfolding locked_world_def by blast
  have again: "handle_agent_audio_transcript_delta (PStr ''Hi'') quiet_env locked_world
       = (Inr (), locked_world\<lparr>trace := trace locked_world
            @ [Get KTextStreamLocked (store locked_world KTextStreamLocked)]\<rparr>)"
    using inst_locked l by simp
  have u: "\<not> truthy (store connected_world KTextStreamLocked)"
    by (simp add: connected_world_simps)
  have unlocked: "handle_agent_audio_transcript_delta (PStr ''Hi'') quiet_env connected_world
        = stream_agent_text ''Hi'' quiet_env
            (connected_world\<lparr>trace := trace connected_world
                @ [Get KTextStreamLocked (store connected_world KTextStreamLocked)]\<rparr>)"
    using inst u by blast
  have tr: "trace (snd (handle_agent_audio_transcript_delta (PStr ''Hi'') quiet_env connected_world))
       = [Get KTextStreamLocked (PBool False), Get KCurrentResponseMsg PNone,
          Await (MessageSend 3 AuthorAgent (Text [])), Set KCurrentResponseMsg (PObj 3),
          Await (StreamToken (PObj 3) ''Hi'')]"
    unfolding unlocked
    by (simp add: stream_agent_text_def act_defs quiet_env_simps connected_world_simps)
  show ?thesis
    using k l after_text u tr by (simp add: locked_world_eq quiet_env_simps)
qed

section \<open>Errors of a tool call\<close>



lemma execute_never_raises: "\<exists>r. fst (execute_function_call fname arguments e w) = Inr r"
  by (auto simp: execute_function_call_def act_defs dict_get_def call_tool_def
      split: sum.splits json.splits prod.splits)








section \<open>A new message while the agent is answering\<close>












lemmas on_message_defs =
  rt_on_message_def ensure_session_defaults_def session_defaults_def generating_or_playing_def
  stop_current_response_def finalize_agent_message_def on_chat_end_def

lemma stopped_world_trace:
  "trace stopped_world =
     [Get KIsGenerating (PBool False), Get KIsPlaying (PBool False),
      Get KTrackId (PStr ''uuid-''), Get KTextStreamLocked (PBool False),
      Get KCurrentResponseMsg PNone, Set KCurrentResponseMsg PNone,
      Get KCurrentUserMsg PNone, Set KCurrentUserMsg PNone,
      Get KConn (PObj 1), Get KIsGenerating (PBool False), Get KIsPlaying (PBool False),
      Await (ConversationItemCreate (PObj 1) (UserText ''first'')),
      Await (ResponseCreate (PObj 1) UserTurn),
      Set KIsGenerating (PBool True),
      Get KRecvTask (PObj 2), CancelTask (PObj 2), Await (TaskJoin (PObj 2)),
      Get KCm (PObj 0), Await (ConnectionExit (PObj 0)),
      Set KConn PNone, Set KCm PNone, Set KRecvTask PNone,
      Set KCurrentResponseMsg PNone, Set KCurrentUserMsg PNone]"
  by (simp add: stopped_world_def on_message_defs act_defs quiet_env_simps connected_world_def
      connected_store_def)







section \<open>Arguments of a tool call\<close>








lemma buffer_PCalls:
  "s KPendingFunctionCalls = PCalls kvs \<Longrightarrow>
   buffer s c = (case map_of kvs c of None \<Rightarrow> [] | Some pc \<Rightarrow> pc_arguments pc)"
  by (simp add: buffer_def)







lemma tasks_of_simps [simp]:
  "tasks_of [] = []"
  "tasks_of (xs @ ys) = tasks_of xs @ tasks_of ys"
  "tasks_of (CreateTask n t # xs) = t # tasks_of xs"
  "tasks_of (Get k v # xs) = tasks_of xs"
  "tasks_of (Set k v # xs) = tasks_of xs"
  "tasks_of (Await c # xs) = tasks_of xs"
  "tasks_of (Raised m # xs) = tasks_of xs"
  by (simp_all add: tasks_of_def task_of_def)










section \<open>A response after a tool result\<close>

lemma single_flight_quiet:
  "\<forall>ev \<in> set xs. \<not> is_feed ev \<and> \<not> is_request ev \<Longrightarrow> single_flight (xs @ ys) = single_flight ys"
  by (induction xs) auto

lemma execute_function_call_silent: "silently (execute_function_call fname arguments) e w"
proof (cases "loads e arguments")
  case (Inl x)
  then show ?thesis by (simp add: silently_def execute_function_call_def act_defs)
next
  case (Inr args)
  show ?thesis
  proof (cases args)
    case (JObj kvs)
    show ?thesis
      using Inr JObj
      by (auto simp: silently_def execute_function_call_def act_defs dict_get_def call_tool_def
          is_feed_def is_request_def split: sum.splits)
  qed (use Inr in \<open>auto simp: silently_def execute_function_call_def act_defs dict_get_def\<close>)
qed

lemma await_silent:
  "\<not> is_feed (Await c) \<Longrightarrow> \<not> is_request (Await c) \<Longrightarrow> silently (await c) e w"
  by (auto simp: silently_def act_defs is_feed_def is_request_def split: option.splits)

lemma new_object_silent: "silently new_object e w"
  by (simp add: silently_def act_defs)

lemma silent_then_flight:
  assumes "silently m e w" and "\<And>a w1. flight (f a) e w1"
  shows "flight (bind_act m f) e w"
proof -
  obtain r t w1 where m: "m e w = (r, w1)" "trace w1 = trace w @ t"
      "\<forall>ev \<in> set t. \<not> is_feed ev \<and> \<not> is_request ev"
    using assms(1) unfolding silently_def by blast
  have q: "\<And>ys. single_flight (t @ ys) = single_flight ys"
    using single_flight_quiet[OF m(3)] by simp
  show ?thesis
  proof (cases r)
    case (Inl x)
    then show ?thesis
      using m q[of "[]"] unfolding flight_def by (intro exI[of _ "Inl x"] exI[of _ t] exI[of _ w1]) (simp add: bind_act_def)
  next
    case (Inr a)
    obtain r2 t2 w2 where f: "f a e w1 = (r2, w2)" "trace w2 = trace w1 @ t2" "single_flight t2"
      using assms(2)[of a w1] unfolding flight_def by blast
    show ?thesis
      using Inr m f q[of t2] unfolding flight_def
      by (intro exI[of _ r2] exI[of _ "t @ t2"] exI[of _ w2]) (simp add: bind_act_def)
  qed
qed

lemma silent_then_safely:
  assumes "silently m e w" and "\<And>a w1. safely (f a) e w1"
  shows "safely (bind_act m f) e w"
proof -
  obtain r t w1 where m: "m e w = (r, w1)" "trace w1 = trace w @ t"
      "\<forall>ev \<in> set t. \<not> is_feed ev \<and> \<not> is_request ev"
    using assms(1) unfolding silently_def by blast
  have q: "\<And>ys. single_flight (t @ ys) = single_flight ys"
    using single_flight_quiet[OF m(3)] by simp
  show ?thesis
  proof (cases r)
    case (Inl x)
    then show ?thesis
      using m q q[of "[]"] unfolding safely_def
      by (intro exI[of _ "Inl x"] exI[of _ t] exI[of _ w1]) (simp add: bind_act_def)
  next
    case (Inr a)
    obtain r2 t2 w2 where f: "f a e w1 = (r2, w2)" "trace w2 = trace w1 @ t2" "single_flight t2"
        "\<forall>x. r2 = Inl x \<longrightarrow> (\<forall>th. single_flight th \<longrightarrow> single_flight (t2 @ th))"
      using assms(2)[of a w1] unfolding safely_def by blast
    show ?thesis
      using Inr m f q unfolding safely_def
      by (intro exI[of _ r2] exI[of _ "t @ t2"] exI[of _ w2]) (simp add: bind_act_def)
  qed
qed

lemma try_except_flight:
  assumes "safely m e w" and "\<And>x w1. flight (h x) e w1"
  shows "flight (try_except m h) e w"
proof -
  obtain r t w1 where m: "m e w = (r, w1)" "trace w1 = trace w @ t" "single_flight t"
      "\<forall>x. r = Inl x \<longrightarrow> (\<forall>th. single_flight th \<longrightarrow> single_flight (t @ th))"
    using assms(1) unfolding safely_def by blast
  show ?thesis
  proof (cases r)
    case (Inr a)
    then show ?thesis
      using m unfolding flight_def
      by (intro exI[of _ "Inr a"] exI[of _ t] exI[of _ w1]) (simp add: try_except_def)
  next
    case (Inl x)
    obtain r2 t2 w2 where h: "h x e w1 = (r2, w2)" "trace w2 = trace w1 @ t2" "single_flight t2"
      using assms(2)[of x w1] unfolding flight_def by blast
    show ?thesis
      using Inl m h unfolding flight_def
      by (intro exI[of _ r2] exI[of _ "t @ t2"] exI[of _ w2]) (simp add: try_except_def)
  qed
qed

lemma feed_then_request_safely:
  "safely (then_act (await (ConversationItemCreate c (FunctionCallOutput i out)))
                    (request_response_unless_generating c opts)) e w"
  unfolding safely_def
  by (auto simp: request_response_unless_generating_def act_defs is_feed_def is_request_def
      split: option.splits)

lemma safely_flight: "safely m e w \<Longrightarrow> flight m e w"
  unfolding safely_def flight_def by blast


lemma task_flight:
  "flight (execute_function_call_async connection call_id fname arguments) e w"
proof -
  have handler: "\<And>step x w1.
      flight (then_act (await (StepUpdate step))
               (then_act (await (ConversationItemCreate connection (FunctionCallOutput call_id (error_payload x))))
                         (request_response_unless_generating connection NoOptions))) e w1"
    unfolding then_act_def[of "await (StepUpdate _)"]
    by (intro safely_flight silent_then_safely await_silent feed_then_request_safely)
       (simp_all add: is_feed_def is_request_def)
  have body: "\<And>step w1.
      safely (then_act (await (StepUpdate step))
               (bind_act (execute_function_call fname arguments) (\<lambda>result.
                  then_act (await (StepUpdate step))
                 (then_act (await (ConversationItemCreate connection (FunctionCallOutput call_id result)))
                           (request_response_unless_generating connection ToolFollowUp))))) e w1"
    unfolding then_act_def[of "await (StepUpdate _)"]
    by (intro silent_then_safely await_silent execute_function_call_silent feed_then_request_safely)
       (simp_all add: is_feed_def is_request_def)
  show ?thesis
    unfolding execute_function_call_async_def then_act_def[of "await (StepSend _ _)"]
    by (intro silent_then_flight new_object_silent await_silent try_except_flight body handler)
       (simp_all add: is_feed_def is_request_def)
qed

lemma bind_returns: "m e w = (Inr a, w1) \<Longrightarrow> bind_act m f e w = f a e w1"
  by (simp add: bind_act_def)

lemma then_returns: "m e w = (Inr a, w1) \<Longrightarrow> then_act m k e w = k e w1"
  by (simp add: then_act_def bind_act_def)

lemma try_returns: "m e w = (Inr a, w1) \<Longrightarrow> try_except m h e w = (Inr a, w1)"
  by (simp add: try_except_def)

lemma await_returns:
  "fault e (awaited w) = None \<Longrightarrow>
   await c e w = (Inr (), w\<lparr>trace := trace w @ [Await c], awaited := Suc (awaited w),
                              store := interleave e (awaited w) (store w)\<rparr>)"
  by (simp add: act_defs)

lemma task_without_faults:
  assumes nf: "\<forall>n. fault e n = None"
  shows "\<exists>pre out g.
           fst (execute_function_call_async connection call_id fname arguments e w) = Inr ()
         \<and> trace_since w (snd (execute_function_call_async connection call_id fname arguments e w))
             = pre @ [Await (ConversationItemCreate connection (FunctionCallOutput call_id out)),
                      Get KIsGenerating g]
               @ (if truthy g then []
                  else [Set KIsGenerating (PBool True), Await (ResponseCreate connection ToolFollowUp)])
         \<and> (\<forall>ev \<in> set pre. \<not> is_feed ev \<and> \<not> is_request ev)"
proof -
  let ?step = "fresh w"
  let ?w0 = "w\<lparr>fresh := Suc (fresh w)\<rparr>"
  obtain w1 where w1: "await (StepSend ?step fname) e ?w0 = (Inr (), w1)"
      "trace w1 = trace w @ [Await (StepSend ?step fname)]"
    using await_returns[of e ?w0] nf by simp
  obtain w2 where w2: "await (StepUpdate ?step) e w1 = (Inr (), w2)"
      "trace w2 = trace w1 @ [Await (StepUpdate ?step)]"
    using await_returns[of e w1] nf by simp
  obtain r t w3 where w3: "execute_function_call fname arguments e w2 = (r, w3)"
      "trace w3 = trace w2 @ t" "\<forall>ev \<in> set t. \<not> is_feed ev \<and> \<not> is_request ev"
    using execute_function_call_silent[of fname arguments e w2] unfolding silently_def by blast
  obtain out where out: "r = Inr out"
    using execute_never_raises[of fname arguments e w2] w3(1) by auto
  obtain w4 where w4: "await (StepUpdate ?step) e w3 = (Inr (), w4)"
      "trace w4 = trace w3 @ [Await (StepUpdate ?step)]"
    using await_returns[of e w3] nf by simp
  let ?feed = "ConversationItemCreate connection (FunctionCallOutput call_id out)"
  obtain w5 where w5: "await ?feed e w4 = (Inr (), w5)" "trace w5 = trace w4 @ [Await ?feed]"
    using await_returns[of e w4] nf by simp
  let ?g = "store w5 KIsGenerating"
  have req: "fst (request_response_unless_generating connection ToolFollowUp e w5) = Inr ()
      \<and> trace (snd (request_response_unless_generating connection ToolFollowUp e w5))
          = trace w5 @ [Get KIsGenerating ?g]
            @ (if truthy ?g then []
               else [Set KIsGenerating (PBool True), Await (ResponseCreate connection ToolFollowUp)])"
    using nf by (simp add: request_response_unless_generating_def act_defs)
  have run: "execute_function_call_async connection call_id fname arguments e w
      = request_response_unless_generating connection ToolFollowUp e w5
        \<or> (\<exists>u w6. request_response_unless_generating connection ToolFollowUp e w5 = (Inl u, w6))"
  proof (cases "request_response_unless_generating connection ToolFollowUp e w5")
    case (Pair r6 w6)
    show ?thesis
    proof (cases r6)
      case (Inl u)
      then show ?thesis using Pair by blast
    next
      case (Inr v)
      have no: "new_object e w = (Inr ?step, ?w0)" by (simp add: new_object_def)
      show ?thesis
        using no w1(1) w2(1) w3(1) out w4(1) w5(1) Pair Inr
        by (simp add: execute_function_call_async_def bind_act_def then_act_def try_except_def)
    qed
  qed
  have notraise: "\<not> (\<exists>u w6. request_response_unless_generating connection ToolFollowUp e w5 = (Inl u, w6))"
    using req by auto
  from run notraise have eq: "execute_function_call_async connection call_id fname arguments e w
      = request_response_unless_generating connection ToolFollowUp e w5" by blast
  let ?pre = "[Await (StepSend ?step fname), Await (StepUpdate ?step)] @ t @ [Await (StepUpdate ?step)]"
  show ?thesis
  proof (intro exI[of _ ?pre] exI[of _ out] exI[of _ ?g] conjI)
    show "fst (execute_function_call_async connection call_id fname arguments e w) = Inr ()"
      using eq req by simp
    show "trace_since w (snd (execute_function_call_async connection call_id fname arguments e w))
             = ?pre @ [Await ?feed, Get KIsGenerating ?g]
               @ (if truthy ?g then []
                  else [Set KIsGenerating (PBool True), Await (ResponseCreate connection ToolFollowUp)])"
      using eq req w1(2) w2(2) w3(2) w4(2) w5(2) by (simp add: trace_since_def)
    show "\<forall>ev \<in> set ?pre. \<not> is_feed ev \<and> \<not> is_request ev"
      using w3(3) by (auto simp: is_feed_def is_request_def)
  qed
qed

text \<open>
  Claim C5.  In every environment and from every session, the events that a tool task
  \<^verbatim>\<open>_execute_function_call_async\<close> adds to the trace keep the single-flight discipline: each
  time the task has added a tool output to the conversation (the result, or the error payload
  of the exception handler) and that call has returned, the task reads \<^verbatim>\<open>is_generating\<close>;
  when the value read is true the task ends without a request of a response, when it is false
  the task sets the flag and requests one response; the task requests a response nowhere
  else.  When no awaited call raises, the task returns, it adds exactly one tool output, and
  after it comes the read of the flag, followed by the write of the flag and the request with
  the follow-up instructions if and only if the value read is false.
\<close>

theorem tool_result_single_flight:
  "single_flight (trace_since w (snd (execute_function_call_async connection call_id fname arguments e w)))
   \<and> (fault e = (\<lambda>n. None) \<longrightarrow>
        (\<exists>pre out g.
           fst (execute_function_call_async connection call_id fname arguments e w) = Inr ()
         \<and> trace_since w (snd (execute_function_call_async connection call_id fname arguments e w))
             = pre @ [Await (ConversationItemCreate connection (FunctionCallOutput call_id out)),
                      Get KIsGenerating g]
               @ (if truthy g then []
                  else [Set KIsGenerating (PBool True), Await (ResponseCreate connection ToolFollowUp)])
         \<and> list_all (\<lambda>ev. \<not> is_feed ev \<and> \<not> is_request ev) pre))"
proof (intro conjI impI)
  show "single_flight (trace_since w (snd (execute_function_call_async connection call_id fname arguments e w)))"
    using task_flight[of connection call_id fname arguments e w]
    unfolding flight_def trace_since_def by auto
next
  assume "fault e = (\<lambda>n. None)"
  then have "\<forall>n. fault e n = None" by simp
  from task_without_faults[OF this, of connection call_id fname arguments w]
  show "\<exists>pre out g.
           fst (execute_function_call_async connection call_id fname arguments e w) = Inr ()
         \<and> trace_since w (snd (execute_function_call_async connection call_id fname arguments e w))
             = pre @ [Await (ConversationItemCreate connection (FunctionCallOutput call_id out)),
                      Get KIsGenerating g]
               @ (if truthy g then []
                  else [Set KIsGenerating (PBool True), Await (ResponseCreate connection ToolFollowUp)])
         \<and> list_all (\<lambda>ev. \<not> is_feed ev \<and> \<not> is_request ev) pre"
    unfolding list_all_iff by blast
qed

lemma weather_of_tokyo:
  "execute_function_call (Some ''get_weather'') ''{\"location\":\"Tokyo\"}'' quiet_env w
     = (Inr ''{\"location\": \"Tokyo\", \"temperature\": \"24\"}'',
        w\<lparr>trace := trace w @ [Await (ToolCall ''get_weather'' (JStr ''Tokyo'') JNull)],
          awaited := Suc (awaited w)\<rparr>)"
  by (simp add: execute_function_call_def act_defs quiet_env_simps sample_loads_def sample_tool_def
      dict_get_def call_tool_def lookup_or_def encode_basestring_def
      escape_char_def)

theorem tool_result_single_flight_witness:
  "fault quiet_env = (\<lambda>n. None)
   \<and> single_flight (trace_since connected_world
        (snd (execute_function_call_async (PObj 1) ''call_1'' (Some ''get_weather'')
                ''{\"location\":\"Tokyo\"}'' quiet_env connected_world)))
   \<and> trace_since connected_world
        (snd (execute_function_call_async (PObj 1) ''call_1'' (Some ''get_weather'')
                ''{\"location\":\"Tokyo\"}'' quiet_env connected_world))
       = [Await (StepSend 3 (Some ''get_weather'')), Await (StepUpdate 3),
          Await (ToolCall ''get_weather'' (JStr ''Tokyo'') JNull), Await (StepUpdate 3),
          Await (ConversationItemCreate (PObj 1)
                   (FunctionCallOutput ''call_1'' ''{\"location\": \"Tokyo\", \"temperature\": \"24\"}'')),
          Get KIsGenerating (PBool False), Set KIsGenerating (PBool True),
          Await (ResponseCreate (PObj 1) ToolFollowUp)]
   \<and> single_flight (trace_since answering_world
        (snd (execute_function_call_async (PObj 1) ''call_1'' (Some ''get_weather'')
                ''{\"location\":\"Tokyo\"}'' quiet_env answering_world)))
   \<and> trace_since answering_world
        (snd (execute_function_call_async (PObj 1) ''call_1'' (Some ''get_weather'')
                ''{\"location\":\"Tokyo\"}'' quiet_env answering_world))
       = [Await (StepSend 4 (Some ''get_weather'')), Await (StepUpdate 4),
          Await (ToolCall ''get_weather'' (JStr ''Tokyo'') JNull), Await (StepUpdate 4),
          Await (ConversationItemCreate (PObj 1)
                   (FunctionCallOutput ''call_1'' ''{\"location\": \"Tokyo\", \"temperature\": \"24\"}'')),
          Get KIsGenerating (PBool True)]"
proof -
  have quiet: "fault quiet_env = (\<lambda>n. None)" by (simp add: quiet_env_def)
  have idle: "trace_since connected_world
        (snd (execute_function_call_async (PObj 1) ''call_1'' (Some ''get_weather'')
                ''{\"location\":\"Tokyo\"}'' quiet_env connected_world))
       = [Await (StepSend 3 (Some ''get_weather'')), Await (StepUpdate 3),
          Await (ToolCall ''get_weather'' (JStr ''Tokyo'') JNull), Await (StepUpdate 3),
          Await (ConversationItemCreate (PObj 1)
                   (FunctionCallOutput ''call_1'' ''{\"location\": \"Tokyo\", \"temperature\": \"24\"}'')),
          Get KIsGenerating (PBool False), Set KIsGenerating (PBool True),
          Await (ResponseCreate (PObj 1) ToolFollowUp)]"
    unfolding execute_function_call_async_def request_response_unless_generating_def
    by (simp add: bind_act_def then_act_def try_except_def weather_of_tokyo await_returns
        quiet_env_simps new_object_def session_get_def session_set_def log_def ret_def
        trace_since_def connected_world_def connected_store_def truthy.simps)
  have busy: "trace_since answering_world
        (snd (execute_function_call_async (PObj 1) ''call_1'' (Some ''get_weather'')
                ''{\"location\":\"Tokyo\"}'' quiet_env answering_world))
       = [Await (StepSend 4 (Some ''get_weather'')), Await (StepUpdate 4),
          Await (ToolCall ''get_weather'' (JStr ''Tokyo'') JNull), Await (StepUpdate 4),
          Await (ConversationItemCreate (PObj 1)
                   (FunctionCallOutput ''call_1'' ''{\"location\": \"Tokyo\", \"temperature\": \"24\"}'')),
          Get KIsGenerating (PBool True)]"
    unfolding execute_function_call_async_def request_response_unless_generating_def
    by (simp add: bind_act_def then_act_def try_except_def weather_of_tokyo await_returns
        quiet_env_simps new_object_def session_get_def session_set_def log_def ret_def
        trace_since_def answering_world_def connected_store_def truthy.simps)
  have first: "single_flight (trace_since connected_world
        (snd (execute_function_call_async (PObj 1) ''call_1'' (Some ''get_weather'')
                ''{\"location\":\"Tokyo\"}'' quiet_env connected_world)))"
    using tool_result_single_flight[of connected_world "PObj 1" "''call_1''" "Some ''get_weather''"
        "''{\"location\":\"Tokyo\"}''" quiet_env]
    by (rule conjunct1)
  have second: "single_flight (trace_since answering_world
        (snd (execute_function_call_async (PObj 1) ''call_1'' (Some ''get_weather'')
                ''{\"location\":\"Tokyo\"}'' quiet_env answering_world)))"
    using tool_result_single_flight[of answering_world "PObj 1" "''call_1''" "Some ''get_weather''"
        "''{\"location\":\"Tokyo\"}''" quiet_env]
    by (rule conjunct1)
  show ?thesis
    by (intro conjI) (rule quiet first idle second busy)+
qed

end
